theory Spec2Isabelle
  imports Complex_Main "HOL-Library.Monad_Syntax" "HOL-Library.Multiset"
begin

section \<open>Dense matrices\<close>

text \<open>
  An Armadillo matrix is stored column by column. It is modelled as the list of its
  columns, each column the list of its entries; a \<open>double\<close> is modelled as a real number,
  without rounding and without overflow.
\<close>

type_synonym vec = "real list"
type_synonym mat = "real list list"

definition n_cols :: "mat \<Rightarrow> nat" where
  "n_cols M = length M"

definition n_rows :: "mat \<Rightarrow> nat" where
  "n_rows M = (case M of [] \<Rightarrow> 0 | c # _ \<Rightarrow> length c)"

definition shape :: "mat \<Rightarrow> nat \<times> nat" where
  "shape M = (n_rows M, n_cols M)"

section \<open>FrechetDistance (metrics/frechet_distance.hpp)\<close>

text \<open>The Armadillo operations used by \<open>FrechetDistance::Evaluate\<close>.\<close>

definition mean_vec :: "vec \<Rightarrow> real" where
  "mean_vec v = sum_list v / real (length v)"

text \<open>\<open>arma::mean(M, 1)\<close>: the mean of every row, a column vector.\<close>

definition mean_dim1 :: "mat \<Rightarrow> vec" where
  "mean_dim1 M = map (\<lambda>i. (\<Sum>c\<leftarrow>M. c ! i) / real (n_cols M)) [0..<n_rows M]"

text \<open>\<open>arma::norm(v, 2)\<close> of a column vector.\<close>

definition norm2 :: "vec \<Rightarrow> real" where
  "norm2 v = sqrt (\<Sum>x\<leftarrow>v. x * x)"

definition vec_sub :: "vec \<Rightarrow> vec \<Rightarrow> vec" where
  "vec_sub u v = map2 (-) u v"

text \<open>\<open>trans(M)\<close>: the rows of \<open>M\<close> become the columns.\<close>

definition trans_mat :: "mat \<Rightarrow> mat" where
  "trans_mat M = map (\<lambda>i. map (\<lambda>c. c ! i) M) [0..<n_rows M]"

text \<open>
  \<open>arma::cov(A)\<close>: every row of \<open>A\<close> is an observation and every column a variable; the
  normalisation is by \<open>N - 1\<close> (by 1 when there is a single observation). A matrix of
  one row is taken as one variable, its entries the observations.
\<close>

definition cov_core :: "mat \<Rightarrow> mat" where
  "cov_core A =
     (let N = n_rows A;
          norm_val = (if N > 1 then real (N - 1) else 1)
      in map (\<lambda>cj. map (\<lambda>ci.
            (\<Sum>k\<leftarrow>[0..<N]. (ci ! k - mean_vec ci) * (cj ! k - mean_vec cj)) / norm_val) A) A)"

definition cov :: "mat \<Rightarrow> mat" where
  "cov A = (if n_rows A = 1 then cov_core (trans_mat A) else cov_core A)"

definition mat_mul :: "mat \<Rightarrow> mat \<Rightarrow> mat" where
  "mat_mul A B =
     map (\<lambda>b. map (\<lambda>i. (\<Sum>k\<leftarrow>[0..<n_cols A]. (A ! k ! i) * (b ! k))) [0..<n_rows A]) B"

definition mat_add :: "mat \<Rightarrow> mat \<Rightarrow> mat" where
  "mat_add A B = map2 (map2 (+)) A B"

definition mat_sub :: "mat \<Rightarrow> mat \<Rightarrow> mat" where
  "mat_sub A B = map2 (map2 (-)) A B"

definition mat_scale :: "real \<Rightarrow> mat \<Rightarrow> mat" where
  "mat_scale a M = map (map (\<lambda>x. a * x)) M"

text \<open>
  \<open>arma::sqrt(M)\<close>: the square root of every entry. The square root of a negative
  \<open>double\<close> is not a number: such an entry is \<open>None\<close>, and so is every entry computed
  from it.
\<close>

definition arma_sqrt :: "mat \<Rightarrow> real option list list" where
  "arma_sqrt M = map (map (\<lambda>x. if x < 0 then None else Some (sqrt x))) M"

definition nan_scale :: "real \<Rightarrow> real option list list \<Rightarrow> real option list list" where
  "nan_scale a M = map (map (map_option (\<lambda>x. a * x))) M"

definition nan_sub :: "mat \<Rightarrow> real option list list \<Rightarrow> real option list list" where
  "nan_sub A B = map2 (map2 (\<lambda>x y. map_option (\<lambda>y'. x - y') y)) A B"

definition trace :: "mat \<Rightarrow> real" where
  "trace M = (\<Sum>i\<leftarrow>[0..<min (n_rows M) (n_cols M)]. M ! i ! i)"

text \<open>The trace is a number when every entry of the diagonal is.\<close>

definition nan_trace :: "real option list list \<Rightarrow> real option" where
  "nan_trace M =
     (let rows = (case M of [] \<Rightarrow> 0 | c # _ \<Rightarrow> length c)
      in map_option sum_list (those (map (\<lambda>i. M ! i ! i) [0..<min rows (length M)])))"

text \<open>
  \<open>FrechetDistance::Evaluate(p, pw)\<close>. The result is \<open>None\<close> when Armadillo aborts an
  operation on matrices whose dimensions do not fit, and when the value returned is not a
  number.
\<close>

definition FrechetDistance_Evaluate :: "mat \<Rightarrow> mat \<Rightarrow> real option" where
  "FrechetDistance_Evaluate p pw =
     (if n_rows p \<noteq> n_rows pw then None
      else
        let firstTerm = norm2 (vec_sub (mean_dim1 p) (mean_dim1 pw));
            transP = trans_mat p;
            transPW = trans_mat pw;
            c = cov transP;
            cW = cov transPW
        in if shape c \<noteq> shape cW then None
           else
             do {
               secondTerm \<leftarrow>
                  nan_trace (nan_sub (mat_add c cW)
                               (nan_scale 2 (arma_sqrt (mat_mul c (trans_mat cW)))));
               Some (firstTerm + secondTerm)
             })"

text \<open>
  The expression of the specification, with the matrix square root a parameter:
  \<open>norm2(mean(P) - mean(Q)) + trace(Cov(P) + Cov(Q) - 2 * sqrtm(Cov(P) * Cov(Q)^T))\<close>.
\<close>

definition spec_FrechetDistance :: "(mat \<Rightarrow> mat) \<Rightarrow> mat \<Rightarrow> mat \<Rightarrow> real" where
  "spec_FrechetDistance sqrtm P Q =
     norm2 (vec_sub (mean_dim1 P) (mean_dim1 Q))
     + trace (mat_sub (mat_add (cov (trans_mat P)) (cov (trans_mat Q)))
               (mat_scale 2 (sqrtm (mat_mul (cov (trans_mat P)) (trans_mat (cov (trans_mat Q)))))))"

text \<open>Three sample points \<open>(-1,-1)\<close>, \<open>(0,0)\<close>, \<open>(1,1)\<close> in two dimensions.\<close>

definition diagonal_samples :: mat where
  "diagonal_samples = [[-1, -1], [0, 0], [1, 1]]"


section \<open>GAN (gan_impl.hpp)\<close>

subsection \<open>Buffers, views and the checked column range\<close>

definition zeros :: "nat \<Rightarrow> vec" where
  "zeros n = replicate n 0"

text \<open>\<open>M.fill(v)\<close> on an \<open>r\<close> by \<open>c\<close> matrix.\<close>

definition mat_fill :: "nat \<Rightarrow> nat \<Rightarrow> real \<Rightarrow> mat" where
  "mat_fill r c v = replicate c (replicate r v)"

text \<open>
  \<open>M.set_size(r, c)\<close> leaves the entries indeterminate; the content of fresh memory is
  the parameter \<open>junk\<close>, read in memory order.
\<close>

definition set_size :: "(nat \<Rightarrow> real) \<Rightarrow> nat \<Rightarrow> nat \<Rightarrow> mat" where
  "set_size junk r c = map (\<lambda>j. map (\<lambda>i. junk (j * r + i)) [0..<r]) [0..<c]"

text \<open>\<open>n - 1\<close> in \<open>size_t\<close> arithmetic.\<close>

definition size_t_pred :: "nat \<Rightarrow> nat" where
  "size_t_pred n = (if n = 0 then 2 ^ 64 - 1 else n - 1)"

text \<open>
  \<open>M.cols(col1, col2) = X\<close>. Armadillo aborts when the range is reversed or leaves the
  matrix, and when \<open>X\<close> does not have the shape of the range.
\<close>

definition cols_assign :: "nat \<Rightarrow> nat \<Rightarrow> mat \<Rightarrow> mat \<Rightarrow> mat option" where
  "cols_assign col1 col2 M X =
     (if col1 > col2 \<or> col2 \<ge> n_cols M then None
      else if n_cols X \<noteq> col2 - col1 + 1 \<or> \<not> list_all (\<lambda>c. length c = n_rows M) X then None
      else Some (take col1 M @ X @ drop (col2 + 1) M))"

text \<open>\<open>M.cols(col1, col2)\<close> read, with the same range check.\<close>

definition cols_read :: "nat \<Rightarrow> nat \<Rightarrow> mat \<Rightarrow> mat option" where
  "cols_read col1 col2 M =
     (if col1 > col2 \<or> col2 \<ge> n_cols M then None
      else Some (take (col2 - col1 + 1) (drop col1 M)))"

text \<open>
  \<open>arma::mat(M.memptr() + first * M.n_rows, M.n_rows, count, false, false)\<close>: a
  non-owning window of \<open>cnt\<close> columns. Nothing checks the pointer; a window that leaves
  the memory of \<open>M\<close> is undefined behaviour, the result \<open>None\<close>.
\<close>

definition cols_window :: "nat \<Rightarrow> nat \<Rightarrow> mat \<Rightarrow> mat option" where
  "cols_window first cnt M =
     (if first + cnt \<le> n_cols M then Some (take cnt (drop first M)) else None)"

text \<open>
  A parameter or gradient matrix of a sub-model: memory of its own, or a non-owning view
  (offset, length) into a shared flat buffer.
\<close>

datatype pview = Owned vec | View nat nat

fun n_elem :: "pview \<Rightarrow> nat" where
  "n_elem (Owned v) = length v"
| "n_elem (View off n) = n"

text \<open>Reading and writing through a view; leaving the buffer is undefined, \<open>None\<close>.\<close>

fun view_read :: "pview \<Rightarrow> vec \<Rightarrow> vec option" where
  "view_read (Owned v) buf = Some v"
| "view_read (View off n) buf =
     (if off + n \<le> length buf then Some (take n (drop off buf)) else None)"

fun view_write :: "pview \<Rightarrow> vec \<Rightarrow> vec \<Rightarrow> vec option" where
  "view_write (Owned v) xs buf = None"
| "view_write (View off n) xs buf =
     (if off + n \<le> length buf \<and> length xs = n
      then Some (take off buf @ xs @ drop (off + n) buf) else None)"

text \<open>The indices of the shared buffer that a view covers.\<close>

fun view_indices :: "pview \<Rightarrow> nat set" where
  "view_indices (Owned v) = {}"
| "view_indices (View off n) = {off..<off + n}"

text \<open>\<open>a += b\<close>: Armadillo aborts on vectors of different sizes.\<close>

definition vec_add :: "vec \<Rightarrow> vec \<Rightarrow> vec option" where
  "vec_add a b = (if length a = length b then Some (map2 (+) a b) else None)"

text \<open>The predictors or responses of a sub-model: its own matrix, or the engine's.\<close>

datatype data_ref = Own mat | Alias

subsection \<open>The sub-models and the external collaborators\<close>

text \<open>
  A sub-model (\<open>FFN\<close>). \<open>network\<close> lists, layer by layer, the answer of
  \<open>weightSizeVisitor\<close>; \<open>layers\<close> is the internal state of the layers (cached
  outputs, deltas).
\<close>

record 'm ffn =
  network :: "nat list"
  ffn_parameter :: pview
  ffn_predictors :: data_ref
  ffn_responses :: data_ref
  ffn_deterministic :: bool
  ffn_error :: mat
  layers :: 'm

text \<open>
  The collaborators that are not part of the engine, as parameters. A sub-model operation
  gets the sub-model, the values of its parameters, its predictors and responses, the first
  column, the content of the gradient buffer on entry and the batch size; it yields the
  new content of the gradient buffer and the new state of the layers, or aborts. It reads the
  predictors, the responses and the parameters and writes none of them.
  \<open>noiseFunction\<close>, \<open>initializeRule\<close> and \<open>arma_shuffle\<close> draw from a source of
  randomness whose state is \<open>'w\<close>.
\<close>

record ('m, 'w) ext =
  ffn_Forward :: "'m ffn \<Rightarrow> vec \<Rightarrow> mat \<Rightarrow> 'm option"
  ffn_EvaluateWithGradient ::
    "'m ffn \<Rightarrow> vec \<Rightarrow> mat \<Rightarrow> mat \<Rightarrow> nat \<Rightarrow> vec \<Rightarrow> nat \<Rightarrow> (real \<times> vec \<times> 'm) option"
  ffn_Gradient ::
    "'m ffn \<Rightarrow> vec \<Rightarrow> mat \<Rightarrow> mat \<Rightarrow> nat \<Rightarrow> vec \<Rightarrow> nat \<Rightarrow> (vec \<times> 'm) option"
  ffn_ResetGradients :: "'m ffn \<Rightarrow> vec \<Rightarrow> 'm"
  ffn_ResetDeterministic :: "'m ffn \<Rightarrow> 'm"
  outputLayer_Forward :: "'m ffn \<Rightarrow> mat \<Rightarrow> mat \<Rightarrow> real option"
  outputParameter :: "'m \<Rightarrow> mat"
  delta :: "'m \<Rightarrow> mat"
  noiseFunction :: "'w \<Rightarrow> real \<times> 'w"
  initializeRule :: "'w \<Rightarrow> nat \<Rightarrow> (nat \<Rightarrow> real) \<times> 'w"
  arma_shuffle :: "'w \<Rightarrow> nat list \<Rightarrow> nat list \<times> 'w"
  junk :: "nat \<Rightarrow> real"

subsection \<open>The engine's state\<close>

record ('m, 'w) gan =
  predictors :: mat
  responses :: mat
  generator :: "'m ffn"
  discriminator :: "'m ffn"
  world :: 'w
  noiseDim :: nat
  numFunctions :: nat
  batchSize :: nat
  currentBatch :: nat
  generatorUpdateStep :: nat
  preTrainSize :: nat
  multiplier :: real
  clippingParameter :: real
  lambda :: real
  reset :: bool
  deterministic :: bool
  genWeights :: nat
  discWeights :: nat
  realLabel :: real
  fakeLabel :: real
  parameter :: vec
  noise :: mat
  gradientGenerator :: pview
  gradientDiscriminator :: pview
  noiseGradientDiscriminator :: vec

text \<open>
  The constructor. \<open>IdentityLayer\<close> has no weights, so the layer inserted in front of the
  discriminator has weight size 0; the members without an initialiser are empty.
\<close>

definition GAN_new ::
  "'m ffn \<Rightarrow> 'm ffn \<Rightarrow> 'w \<Rightarrow> nat \<Rightarrow> nat \<Rightarrow> nat \<Rightarrow> nat \<Rightarrow> real \<Rightarrow> real \<Rightarrow> real \<Rightarrow> ('m, 'w) gan" where
  "GAN_new gen disc w nDim bSize gStep pSize mlt clip lam =
     \<lparr> predictors = [], responses = [],
       generator = gen,
       discriminator = disc\<lparr>network := 0 # network disc\<rparr>,
       world = w,
       noiseDim = nDim, numFunctions = 0, batchSize = bSize, currentBatch = 0,
       generatorUpdateStep = gStep, preTrainSize = pSize, multiplier = mlt,
       clippingParameter = clip, lambda = lam, reset = False, deterministic = False,
       genWeights = 0, discWeights = 0, realLabel = 0, fakeLabel = 0,
       parameter = [], noise = [],
       gradientGenerator = Owned [], gradientDiscriminator = Owned [],
       noiseGradientDiscriminator = [] \<rparr>"

text \<open>What a sub-model sees as its parameters, predictors and responses.\<close>

definition Parameters_of :: "('m, 'w) gan \<Rightarrow> 'm ffn \<Rightarrow> vec option" where
  "Parameters_of s f = view_read (ffn_parameter f) (parameter s)"

definition Predictors_of :: "('m, 'w) gan \<Rightarrow> 'm ffn \<Rightarrow> mat" where
  "Predictors_of s f = (case ffn_predictors f of Own M \<Rightarrow> M | Alias \<Rightarrow> predictors s)"

definition Responses_of :: "('m, 'w) gan \<Rightarrow> 'm ffn \<Rightarrow> mat" where
  "Responses_of s f = (case ffn_responses f of Own M \<Rightarrow> M | Alias \<Rightarrow> responses s)"


subsection \<open>ResetDeterministic, Reset, ResetData\<close>

definition ResetDeterministic :: "('m, 'w) ext \<Rightarrow> ('m, 'w) gan \<Rightarrow> ('m, 'w) gan" where
  "ResetDeterministic E s =
     (let s1 = s\<lparr>discriminator := (discriminator s)\<lparr>ffn_deterministic := deterministic s\<rparr>\<rparr>;
          s2 = s1\<lparr>generator := (generator s1)\<lparr>ffn_deterministic := deterministic s1\<rparr>\<rparr>;
          s3 = s2\<lparr>discriminator :=
                 (discriminator s2)\<lparr>layers := ffn_ResetDeterministic E (discriminator s2)\<rparr>\<rparr>
      in s3\<lparr>generator := (generator s3)\<lparr>layers := ffn_ResetDeterministic E (generator s3)\<rparr>\<rparr>)"

text \<open>Writing \<open>xs\<close> into a flat buffer from position \<open>off\<close> on.\<close>

definition write_seg :: "nat \<Rightarrow> vec \<Rightarrow> vec \<Rightarrow> vec" where
  "write_seg off xs buf = take off buf @ xs @ drop (off + length xs) buf"

text \<open>
  Modelled from the spec: \<open>NetworkInitialization::Initialize(network, parameter, offset)\<close>
  is not among the sources. The specification has it run the configured initialization rule
  over the layer graph of a sub-model against its segment of the buffer: layer by layer,
  from \<open>offset\<close> on, the rule fills the weights of the layer.
\<close>

fun Initialize ::
  "('w \<Rightarrow> nat \<Rightarrow> (nat \<Rightarrow> real) \<times> 'w) \<Rightarrow> nat list \<Rightarrow> nat \<Rightarrow> vec \<times> 'w \<Rightarrow> vec \<times> 'w" where
  "Initialize rule [] offset (buf, w) = (buf, w)"
| "Initialize rule (weight # net) offset (buf, w) =
     (let (f, w') = rule w weight
      in Initialize rule net (offset + weight) (write_seg offset (map f [0..<weight]) buf, w'))"

text \<open>
  \<open>Reset()\<close>. \<open>parameter.set_size\<close> keeps the memory when the number of entries does
  not change; the two \<open>Parameters()\<close> become views into the buffer.
\<close>

definition Reset :: "('m, 'w) ext \<Rightarrow> ('m, 'w) gan \<Rightarrow> ('m, 'w) gan" where
  "Reset E s =
     (let g = sum_list (network (generator s));
          d = sum_list (network (discriminator s));
          s1 = s\<lparr>genWeights := g, discWeights := d\<rparr>;
          s2 = s1\<lparr>parameter :=
                 (if length (parameter s1) = g + d then parameter s1
                  else map (junk E) [0..<g + d])\<rparr>;
          s3 = s2\<lparr>generator := (generator s2)\<lparr>ffn_parameter := View 0 (genWeights s2)\<rparr>\<rparr>;
          s4 = s3\<lparr>discriminator :=
                 (discriminator s3)\<lparr>ffn_parameter := View (genWeights s3) (discWeights s3)\<rparr>\<rparr>;
          (p1, w1) = Initialize (initializeRule E) (network (generator s4)) 0
                       (parameter s4, world s4);
          (p2, w2) = Initialize (initializeRule E) (network (discriminator s4)) (genWeights s4)
                       (p1, w1)
      in s4\<lparr>parameter := p2, world := w2, reset := True\<rparr>)"

text \<open>
  \<open>ResetData(trainData, realLabel, fakeLabel)\<close>. With no training column,
  \<open>numFunctions - 1\<close> wraps around and the column range is refused.
\<close>

definition ResetData ::
  "('m, 'w) ext \<Rightarrow> mat \<Rightarrow> real \<Rightarrow> real \<Rightarrow> ('m, 'w) gan \<Rightarrow> ('m, 'w) gan option" where
  "ResetData E trainData rLabel fLabel s0 =
     (let s1 = s0\<lparr>currentBatch := 0, realLabel := rLabel, fakeLabel := fLabel\<rparr>;
          s2 = s1\<lparr>numFunctions := n_cols trainData\<rparr>;
          s3 = s2\<lparr>noise := set_size (junk E) (noiseDim s2) (batchSize s2)\<rparr>;
          s4 = ResetDeterministic E (s3\<lparr>deterministic := True\<rparr>);
          fresh = set_size (junk E) (n_rows trainData) (numFunctions s4 + batchSize s4)
      in do {
        p \<leftarrow> cols_assign 0 (size_t_pred (numFunctions s4)) fresh trainData;
        let s5 = s4\<lparr>predictors := p\<rparr>;
        let s6 = s5\<lparr>discriminator := (discriminator s5)\<lparr>ffn_predictors := Alias\<rparr>\<rparr>;
        let fakeResponses = mat_fill 1 (batchSize s6) fLabel;
        let s7 = s6\<lparr>responses := mat_fill 1 (numFunctions s6) rLabel @ fakeResponses\<rparr>;
        let s8 = s7\<lparr>discriminator := (discriminator s7)\<lparr>ffn_responses := Alias\<rparr>\<rparr>;
        let s9 = s8\<lparr>generator := (generator s8)
                   \<lparr>ffn_predictors := Own (set_size (junk E) (noiseDim s8) (batchSize s8))\<rparr>\<rparr>;
        let s10 = s9\<lparr>generator := (generator s9)
                   \<lparr>ffn_responses :=
                      Own (set_size (junk E) (n_rows (predictors s9)) (batchSize s9))\<rparr>\<rparr>;
        Some (if \<not> reset s10 then Reset E s10 else s10)
      })"

subsection \<open>Evaluate\<close>

text \<open>\<open>M.imbue(f)\<close>: every entry is replaced by a fresh draw, in memory order.\<close>

fun imbue_vec :: "('w \<Rightarrow> real \<times> 'w) \<Rightarrow> vec \<Rightarrow> 'w \<Rightarrow> vec \<times> 'w" where
  "imbue_vec f [] w = ([], w)"
| "imbue_vec f (x # xs) w =
     (let (y, w1) = f w; (ys, w2) = imbue_vec f xs w1 in (y # ys, w2))"

fun imbue :: "('w \<Rightarrow> real \<times> 'w) \<Rightarrow> mat \<Rightarrow> 'w \<Rightarrow> mat \<times> 'w" where
  "imbue f [] w = ([], w)"
| "imbue f (c # cs) w =
     (let (c', w1) = imbue_vec f c w; (cs', w2) = imbue f cs w1 in (c' # cs', w2))"

text \<open>Sampling the noise and running the generator on it (both entry points).\<close>

definition sample_and_generate :: "('m, 'w) ext \<Rightarrow> ('m, 'w) gan \<Rightarrow> ('m, 'w) gan option" where
  "sample_and_generate E s0 =
     (let (nz, w) = imbue (noiseFunction E) (noise s0) (world s0);
          s1 = s0\<lparr>noise := nz, world := w\<rparr>
      in do {
        gparams \<leftarrow> Parameters_of s1 (generator s1);
        gl \<leftarrow> ffn_Forward E (generator s1) gparams (noise s1);
        let s2 = s1\<lparr>generator := (generator s1)\<lparr>layers := gl\<rparr>\<rparr>;
        p \<leftarrow> cols_assign (numFunctions s2) (size_t_pred (numFunctions s2 + batchSize s2))
               (predictors s2) (outputParameter E (layers (generator s2)));
        Some (s2\<lparr>predictors := p\<rparr>)
      })"

text \<open>Relabelling the generated columns: \<open>fakeResponses.fill(v)\<close> and the assignment.\<close>

definition relabel :: "real \<Rightarrow> ('m, 'w) gan \<Rightarrow> ('m, 'w) gan option" where
  "relabel v s =
     do {
       let fakeResponses = mat_fill 1 (batchSize s) v;
       r \<leftarrow> cols_assign (numFunctions s) (size_t_pred (numFunctions s + batchSize s))
              (responses s) fakeResponses;
       Some (s\<lparr>responses := r\<rparr>)
     }"

definition GAN_Evaluate ::
  "('m, 'w) ext \<Rightarrow> nat \<Rightarrow> ('m, 'w) gan \<Rightarrow> (real \<times> ('m, 'w) gan) option" where
  "GAN_Evaluate E i s0 =
     (let s1 = (if parameter s0 = [] then Reset E s0 else s0);
          s2 = (if \<not> deterministic s1
                then ResetDeterministic E (s1\<lparr>deterministic := True\<rparr>) else s1);
          s3 = (if \<not> deterministic s2
                then ResetDeterministic E (s2\<lparr>deterministic := True\<rparr>) else s2)
      in do {
        currentInput \<leftarrow> cols_window i (batchSize s3) (predictors s3);
        currentTarget \<leftarrow> cols_window i (batchSize s3) (responses s3);
        dparams \<leftarrow> Parameters_of s3 (discriminator s3);
        dl \<leftarrow> ffn_Forward E (discriminator s3) dparams currentInput;
        let s4 = s3\<lparr>discriminator := (discriminator s3)\<lparr>layers := dl\<rparr>\<rparr>;
        res \<leftarrow> outputLayer_Forward E (discriminator s4)
                 (outputParameter E (layers (discriminator s4))) currentTarget;
        s5 \<leftarrow> sample_and_generate E s4;
        generated \<leftarrow> cols_read (numFunctions s5) (size_t_pred (numFunctions s5 + batchSize s5))
                       (predictors s5);
        dparams \<leftarrow> Parameters_of s5 (discriminator s5);
        dl \<leftarrow> ffn_Forward E (discriminator s5) dparams generated;
        let s6 = s5\<lparr>discriminator := (discriminator s5)\<lparr>layers := dl\<rparr>\<rparr>;
        s7 \<leftarrow> relabel (fakeLabel s6) s6;
        currentTarget \<leftarrow> cols_window (numFunctions s7) (batchSize s7) (responses s7);
        res2 \<leftarrow> outputLayer_Forward E (discriminator s7)
                  (outputParameter E (layers (discriminator s7))) currentTarget;
        Some (res + res2, s7)
      })"


text \<open>
  The engine as \<open>Evaluate\<close> has it after the lazy reset and the switch to inference mode
  (lines 294 to 303; the repeated test of lines 305 to 309 finds the mode set).
\<close>

definition entered_inference :: "('m, 'w) ext \<Rightarrow> ('m, 'w) gan \<Rightarrow> ('m, 'w) gan" where
  "entered_inference E s0 =
     (let s1 = (if parameter s0 = [] then Reset E s0 else s0)
      in if \<not> deterministic s1
         then ResetDeterministic E (s1\<lparr>deterministic := True\<rparr>) else s1)"

subsection \<open>EvaluateWithGradient and Gradient\<close>

text \<open>
  The call works on the gradient buffer of the caller, passed by reference: the buffer is
  threaded through the stages next to the state of the engine.

  First stage: the lazy reset, the zeroed gradient buffer, training mode, the zeroed scratch
  buffer and the two views into the gradient buffer.
\<close>

definition EWG_prepare ::
  "('m, 'w) ext \<Rightarrow> vec \<Rightarrow> ('m, 'w) gan \<Rightarrow> vec \<times> ('m, 'w) gan" where
  "EWG_prepare E gradient s0 =
     (let s1 = (if parameter s0 = [] then Reset E s0 else s0);
          (gradient1, s2) =
             (if gradient = []
              then (let s' = (if parameter s1 = [] then Reset E s1 else s1)
                    in (zeros (length (parameter s')), s'))
              else (zeros (length gradient), s1));
          s3 = (if deterministic s2
                then ResetDeterministic E (s2\<lparr>deterministic := False\<rparr>) else s2);
          s4 = s3\<lparr>noiseGradientDiscriminator :=
                 (if noiseGradientDiscriminator s3 = []
                  then zeros (n_elem (gradientDiscriminator s3))
                  else zeros (length (noiseGradientDiscriminator s3)))\<rparr>;
          s5 = s4\<lparr>gradientGenerator := View 0 (n_elem (ffn_parameter (generator s4)))\<rparr>;
          s6 = s5\<lparr>gradientDiscriminator :=
                 View (n_elem (gradientGenerator s5)) (n_elem (ffn_parameter (discriminator s5)))\<rparr>
      in (gradient1, s6))"

text \<open>
  Second stage: the discriminator on the real columns from \<open>i\<close> on, the fresh generated
  columns labelled fake, the discriminator on them into the scratch buffer, and the sum.
\<close>

definition EWG_discriminator ::
  "('m, 'w) ext \<Rightarrow> nat \<Rightarrow> vec \<times> ('m, 'w) gan \<Rightarrow> (real \<times> vec \<times> ('m, 'w) gan) option" where
  "EWG_discriminator E i gs =
     (case gs of (gradient0, s0) \<Rightarrow>
      do {
        dparams \<leftarrow> Parameters_of s0 (discriminator s0);
        gd \<leftarrow> view_read (gradientDiscriminator s0) gradient0;
        (res, gd', dl) \<leftarrow> ffn_EvaluateWithGradient E (discriminator s0) dparams
            (Predictors_of s0 (discriminator s0)) (Responses_of s0 (discriminator s0))
            i gd (batchSize s0);
        gradient1 \<leftarrow> view_write (gradientDiscriminator s0) gd' gradient0;
        let s1 = s0\<lparr>discriminator := (discriminator s0)\<lparr>layers := dl\<rparr>\<rparr>;
        s2 \<leftarrow> sample_and_generate E s1;
        s3 \<leftarrow> relabel (fakeLabel s2) s2;
        dparams \<leftarrow> Parameters_of s3 (discriminator s3);
        (res2, ngd, dl) \<leftarrow> ffn_EvaluateWithGradient E (discriminator s3) dparams
            (Predictors_of s3 (discriminator s3)) (Responses_of s3 (discriminator s3))
            (numFunctions s3) (noiseGradientDiscriminator s3) (batchSize s3);
        let s4 = s3\<lparr>discriminator := (discriminator s3)\<lparr>layers := dl\<rparr>,
                    noiseGradientDiscriminator := ngd\<rparr>;
        gd \<leftarrow> view_read (gradientDiscriminator s4) gradient1;
        total \<leftarrow> vec_add gd (noiseGradientDiscriminator s4);
        gradient2 \<leftarrow> view_write (gradientDiscriminator s4) total gradient1;
        Some (res + res2, gradient2, s4)
      })"

text \<open>
  Third stage, behind the gate: the generated columns labelled real, the discriminator's
  gradient there, its error at \<open>network[1]\<close> handed to the generator, the generator's
  gradient into its view, scaled by \<open>multiplier\<close>. Indexing a layer vector of fewer than
  two layers at 1 is undefined: \<open>None\<close>.
\<close>

definition EWG_generator ::
  "('m, 'w) ext \<Rightarrow> vec \<times> ('m, 'w) gan \<Rightarrow> (vec \<times> ('m, 'w) gan) option" where
  "EWG_generator E gs =
     (case gs of (gradient0, s0) \<Rightarrow>
      do {
        s1 \<leftarrow> relabel (realLabel s0) s0;
        dparams \<leftarrow> Parameters_of s1 (discriminator s1);
        (ngd, dl) \<leftarrow> ffn_Gradient E (discriminator s1) dparams
            (Predictors_of s1 (discriminator s1)) (Responses_of s1 (discriminator s1))
            (numFunctions s1) (noiseGradientDiscriminator s1) (batchSize s1);
        let s2 = s1\<lparr>discriminator := (discriminator s1)\<lparr>layers := dl\<rparr>,
                    noiseGradientDiscriminator := ngd\<rparr>;
        s3 \<leftarrow> (if length (network (discriminator s2)) < 2 then None
               else Some (s2\<lparr>generator := (generator s2)
                            \<lparr>ffn_error := delta E (layers (discriminator s2))\<rparr>\<rparr>));
        let s4 = s3\<lparr>generator := (generator s3)\<lparr>ffn_predictors := Own (noise s3)\<rparr>\<rparr>;
        gg \<leftarrow> view_read (gradientGenerator s4) gradient0;
        let s5 = s4\<lparr>generator := (generator s4)
                     \<lparr>layers := ffn_ResetGradients E (generator s4) gg\<rparr>\<rparr>;
        gparams \<leftarrow> Parameters_of s5 (generator s5);
        (gg', gl) \<leftarrow> ffn_Gradient E (generator s5) gparams
            (Predictors_of s5 (generator s5)) (Responses_of s5 (generator s5))
            0 gg (batchSize s5);
        gradient1 \<leftarrow> view_write (gradientGenerator s5) gg' gradient0;
        let s6 = s5\<lparr>generator := (generator s5)\<lparr>layers := gl\<rparr>\<rparr>;
        gg \<leftarrow> view_read (gradientGenerator s6) gradient1;
        gradient2 \<leftarrow> view_write (gradientGenerator s6) (map (\<lambda>x. x * multiplier s6) gg) gradient1;
        Some (gradient2, s6)
      })"

text \<open>The gate of the generator update.\<close>

definition gate :: "('m, 'w) gan \<Rightarrow> bool" where
  "gate s = (currentBatch s mod generatorUpdateStep s = 0 \<and> preTrainSize s = 0)"

text \<open>
  Last stage: the counters. \<open>currentBatch\<close> is a \<open>size_t\<close>: the increment wraps at
  \<open>2 ^ 64\<close>.
\<close>

definition EWG_advance :: "('m, 'w) gan \<Rightarrow> ('m, 'w) gan" where
  "EWG_advance s0 =
     (let s1 = s0\<lparr>currentBatch := (currentBatch s0 + 1) mod 2 ^ 64\<rparr>
      in if preTrainSize s1 > 0 then s1\<lparr>preTrainSize := preTrainSize s1 - 1\<rparr> else s1)"

text \<open>
  \<open>EvaluateWithGradient(parameters, i, gradient, batchSize)\<close>; the first and the last
  argument are not used. The remainder by a \<open>generatorUpdateStep\<close> of zero is undefined:
  \<open>None\<close>.
\<close>

definition GAN_EvaluateWithGradient ::
  "('m, 'w) ext \<Rightarrow> nat \<Rightarrow> vec \<Rightarrow> ('m, 'w) gan \<Rightarrow> (real \<times> vec \<times> ('m, 'w) gan) option" where
  "GAN_EvaluateWithGradient E i gradient s0 =
     do {
       (res, gradient1, s1) \<leftarrow> EWG_discriminator E i (EWG_prepare E gradient s0);
       (gradient2, s2) \<leftarrow>
          (if generatorUpdateStep s1 = 0 then None
           else if gate s1 then EWG_generator E (gradient1, s1)
           else Some (gradient1, s1));
       Some (res, gradient2, EWG_advance s2)
     }"

text \<open>\<open>Gradient(parameters, i, gradient, batchSize)\<close>: the loss is dropped.\<close>

definition GAN_Gradient ::
  "('m, 'w) ext \<Rightarrow> nat \<Rightarrow> vec \<Rightarrow> ('m, 'w) gan \<Rightarrow> (vec \<times> ('m, 'w) gan) option" where
  "GAN_Gradient E i gradient s0 =
     do {
       (res, gradient1, s1) \<leftarrow> GAN_EvaluateWithGradient E i gradient s0;
       Some (gradient1, s1)
     }"

text \<open>A run of calls, each with its index and the gradient buffer the caller passes.\<close>

fun EWG_calls ::
  "('m, 'w) ext \<Rightarrow> (nat \<times> vec) list \<Rightarrow> ('m, 'w) gan \<Rightarrow> ('m, 'w) gan option" where
  "EWG_calls E [] s = Some s"
| "EWG_calls E ((i, gradient) # cs) s =
     (case GAN_EvaluateWithGradient E i gradient s of
        None \<Rightarrow> None
      | Some (res, gradient', s') \<Rightarrow> EWG_calls E cs s')"

subsection \<open>Shuffle\<close>

text \<open>\<open>arma::linspace<arma::uvec>(0, N - 1, N)\<close>; with fewer than two points it is the end point alone.\<close>

definition linspace :: "nat \<Rightarrow> nat list" where
  "linspace N = (if N \<ge> 2 then [0..<N] else [size_t_pred N])"

text \<open>\<open>M.cols(ord)\<close> for a vector of indices: Armadillo aborts on an index that is not a column.\<close>

definition cols_pick :: "nat list \<Rightarrow> mat \<Rightarrow> mat option" where
  "cols_pick ord M =
     (if list_all (\<lambda>j. j < n_cols M) ord then Some (map (\<lambda>j. M ! j) ord) else None)"

definition Shuffle :: "('m, 'w) ext \<Rightarrow> ('m, 'w) gan \<Rightarrow> ('m, 'w) gan option" where
  "Shuffle E s =
     (let (ord, w) = arma_shuffle E (world s) (linspace (numFunctions s))
      in do {
        picked \<leftarrow> cols_pick ord (predictors s);
        p \<leftarrow> cols_assign 0 (size_t_pred (numFunctions s)) (predictors s) picked;
        Some (s\<lparr>predictors := p, world := w\<rparr>)
      })"


subsection \<open>The invariant of the shared parameter buffer\<close>

definition arena_inv :: "('m, 'w) gan \<Rightarrow> bool" where
  "arena_inv s =
     (length (parameter s) = genWeights s + discWeights s
      \<and> genWeights s = sum_list (network (generator s))
      \<and> discWeights s = sum_list (network (discriminator s))
      \<and> ffn_parameter (generator s) = View 0 (genWeights s)
      \<and> ffn_parameter (discriminator s) = View (genWeights s) (discWeights s))"

subsection \<open>A small concrete engine\<close>

text \<open>
  Collaborators for concrete runs: a sub-model whose forward pass caches its input, whose
  gradient adds a constant to the buffer it is given (allocating an empty buffer to the
  size of its parameters first, as \<open>FFN\<close> does), a counter as the source of randomness,
  and an initialization rule that fills a layer with the current value of the counter.
\<close>

definition demo_ext :: "(mat, nat) ext" where
  "demo_ext =
     \<lparr> ffn_Forward = (\<lambda>f params input. Some input),
       ffn_EvaluateWithGradient = (\<lambda>f params preds resps first gin bs.
          Some (1, map (\<lambda>x. x + 1) (if gin = [] then zeros (length params) else gin), layers f)),
       ffn_Gradient = (\<lambda>f params preds resps first gin bs.
          Some (map (\<lambda>x. x + 2) (if gin = [] then zeros (length params) else gin), layers f)),
       ffn_ResetGradients = (\<lambda>f gin. layers f),
       ffn_ResetDeterministic = (\<lambda>f. layers f),
       outputLayer_Forward = (\<lambda>f out target. Some 0),
       outputParameter = (\<lambda>m. m),
       delta = (\<lambda>m. m),
       noiseFunction = (\<lambda>w. (real w, Suc w)),
       initializeRule = (\<lambda>w n. (\<lambda>i. real w, Suc w)),
       arma_shuffle = (\<lambda>w xs. (rev xs, Suc w)),
       junk = (\<lambda>i. 0) \<rparr>"

definition demo_ffn :: "mat ffn" where
  "demo_ffn =
     \<lparr> network = [1], ffn_parameter = Owned [], ffn_predictors = Own [],
       ffn_responses = Own [], ffn_deterministic = False, ffn_error = [], layers = [] \<rparr>"

text \<open>One noise dimension, batches of one, a generator step every other batch, one batch of pretraining.\<close>

definition demo_new :: "(mat, nat) gan" where
  "demo_new = GAN_new demo_ffn demo_ffn 0 1 1 2 1 3 0 0"

definition demo_data :: mat where
  "demo_data = [[5], [7]]"

text \<open>The engine after \<open>ResetData(demo_data, 1, 0)\<close>.\<close>

definition demo_ready :: "(mat, nat) gan" where
  "demo_ready =
     \<lparr> predictors = [[5], [7], [0]], responses = [[1], [1], [0]],
       generator =
         \<lparr> network = [1], ffn_parameter = View 0 1, ffn_predictors = Own [[0]],
           ffn_responses = Own [[0]], ffn_deterministic = True, ffn_error = [], layers = [] \<rparr>,
       discriminator =
         \<lparr> network = [0, 1], ffn_parameter = View 1 1, ffn_predictors = Alias,
           ffn_responses = Alias, ffn_deterministic = True, ffn_error = [], layers = [] \<rparr>,
       world = 3, noiseDim = 1, numFunctions = 2, batchSize = 1, currentBatch = 0,
       generatorUpdateStep = 2, preTrainSize = 1, multiplier = 3, clippingParameter = 0,
       lambda = 0, reset = True, deterministic = True, genWeights = 1, discWeights = 1,
       realLabel = 1, fakeLabel = 0, parameter = [0, 2], noise = [[0]],
       gradientGenerator = Owned [], gradientDiscriminator = Owned [],
       noiseGradientDiscriminator = [] \<rparr>"

text \<open>The same engine with the pretraining over: the gate is open.\<close>

definition demo_open :: "(mat, nat) gan" where
  "demo_open = demo_ready\<lparr>preTrainSize := 0\<rparr>"

text \<open>The engine \<open>demo_open\<close> after one call of \<open>EvaluateWithGradient\<close> at index 0.\<close>

definition demo_updated :: "(mat, nat) gan" where
  "demo_updated =
     demo_open
       \<lparr> predictors := [[5], [7], [3]], responses := [[1], [1], [1]],
         generator := (generator demo_open)
           \<lparr>ffn_predictors := Own [[3]], ffn_deterministic := False, ffn_error := [],
            layers := [[3]]\<rparr>,
         discriminator := (discriminator demo_open)\<lparr>ffn_deterministic := False\<rparr>,
         world := 4, currentBatch := 1, deterministic := False,
         noise := [[3]], gradientGenerator := View 0 1, gradientDiscriminator := View 1 1,
         noiseGradientDiscriminator := [3] \<rparr>"

text \<open>The same collaborators with a stateless initialization rule: every weight is 7.\<close>

definition demo_const_ext :: "(mat, nat) ext" where
  "demo_const_ext = demo_ext\<lparr>initializeRule := (\<lambda>w n. (\<lambda>i. 7, w))\<rparr>"

text \<open>The settings that no stage of a call changes before the counters advance.\<close>

definition same_settings :: "('m, 'w) gan \<Rightarrow> ('m, 'w) gan \<Rightarrow> bool" where
  "same_settings s s' =
     (numFunctions s' = numFunctions s \<and> batchSize s' = batchSize s
      \<and> currentBatch s' = currentBatch s \<and> generatorUpdateStep s' = generatorUpdateStep s
      \<and> preTrainSize s' = preTrainSize s \<and> realLabel s' = realLabel s
      \<and> fakeLabel s' = fakeLabel s \<and> multiplier s' = multiplier s)"

section \<open>The Frechet distance on correlated samples\<close>

lemma cov_diagonal_samples: "cov (trans_mat diagonal_samples) = [[1, 1], [1, 1]]"
  by (simp add: diagonal_samples_def cov_def cov_core_def trans_mat_def n_rows_def
      mean_vec_def upt_rec)

lemma Evaluate_diagonal_samples:
  "FrechetDistance_Evaluate diagonal_samples diagonal_samples = Some (4 - 4 * sqrt 2)"
  unfolding FrechetDistance_Evaluate_def Let_def cov_diagonal_samples
  by (simp add: diagonal_samples_def mean_dim1_def vec_sub_def norm2_def n_rows_def n_cols_def
      shape_def trans_mat_def mat_mul_def mat_add_def nan_sub_def nan_scale_def arma_sqrt_def
      nan_trace_def upt_rec)

lemma four_minus_four_sqrt2: "4 - 4 * sqrt 2 < 0"
proof -
  have "1 < sqrt 2" by simp
  then show ?thesis by simp
qed

text \<open>
  C5. \<open>FrechetDistance::Evaluate\<close> is claimed to return
  \<open>norm2(mean(P) - mean(Q)) + trace(Cov(P) + Cov(Q) - 2 * sqrtm(Cov(P) * Cov(Q)^T))\<close> with
  \<open>sqrtm\<close> the principal matrix square root. The code takes \<open>arma::sqrt\<close>, the square root
  of every entry. On the three points \<open>(-1,-1)\<close>, \<open>(0,0)\<close>, \<open>(1,1)\<close> both covariances are
  the all-ones matrix, which is symmetric, positive semidefinite and squares to the product
  of the covariances, so it is the principal square root; the claimed expression is 0 there
  and the code returns \<open>4 - 4 * sqrt 2\<close>.
\<close>

theorem C5_elementwise_sqrt_diverges:
  "mat_mul [[1, 1], [1, 1]] [[1, 1], [1, 1]]
     = mat_mul (cov (trans_mat diagonal_samples)) (trans_mat (cov (trans_mat diagonal_samples)))
   \<and> spec_FrechetDistance (\<lambda>M. [[1, 1], [1, 1]]) diagonal_samples diagonal_samples = 0
   \<and> FrechetDistance_Evaluate diagonal_samples diagonal_samples = Some (4 - 4 * sqrt 2)
   \<and> FrechetDistance_Evaluate diagonal_samples diagonal_samples
       \<noteq> Some (spec_FrechetDistance (\<lambda>M. [[1, 1], [1, 1]]) diagonal_samples diagonal_samples)"
proof -
  have a: "mat_mul [[1, 1], [1, 1]] [[1, 1], [1, 1]]
     = mat_mul (cov (trans_mat diagonal_samples)) (trans_mat (cov (trans_mat diagonal_samples)))"
    unfolding cov_diagonal_samples
    by (simp add: mat_mul_def trans_mat_def n_rows_def n_cols_def upt_rec)
  have b: "spec_FrechetDistance (\<lambda>M. [[1, 1], [1, 1]]) diagonal_samples diagonal_samples = 0"
    unfolding spec_FrechetDistance_def cov_diagonal_samples
    by (simp add: diagonal_samples_def mean_dim1_def vec_sub_def norm2_def n_rows_def n_cols_def
      mat_add_def mat_sub_def mat_scale_def trace_def upt_rec)
  have c: "4 - 4 * sqrt 2 \<noteq> (0::real)" using four_minus_four_sqrt2 by simp
  show ?thesis using a b c Evaluate_diagonal_samples by simp
qed

text \<open>
  C6. \<open>Evaluate(X, X)\<close> is claimed to be 0 for every sample matrix \<open>X\<close>. With the
  entry-wise square root the covariance term does not vanish when the dimensions are
  correlated: on the three points above the code returns \<open>4 - 4 * sqrt 2\<close>, a negative
  number.
\<close>

theorem C6_self_distance_not_zero:
  "FrechetDistance_Evaluate diagonal_samples diagonal_samples = Some (4 - 4 * sqrt 2)
   \<and> FrechetDistance_Evaluate diagonal_samples diagonal_samples \<noteq> Some 0"
proof -
  have c: "4 - 4 * sqrt 2 \<noteq> (0::real)" using four_minus_four_sqrt2 by simp
  show ?thesis using c Evaluate_diagonal_samples by simp
qed

section \<open>Frames of the operations\<close>

lemma cols_assign_range:
  assumes "cols_assign a (size_t_pred (a + n)) M X = Some M'" and "length X = n \<or> 0 < a + n"
  shows "1 \<le> n \<and> a + n \<le> length M \<and> length X = n \<and> M' = take a M @ X @ drop (a + n) M"
  using assms
  by (auto simp: cols_assign_def size_t_pred_def n_cols_def split: if_splits)

lemma slice_of_assigned:
  assumes "a + length X \<le> length M"
  shows "take (length X) (drop a (take a M @ X @ drop (a + length X) M)) = X"
  using assms by simp

lemma ResetDeterministic_fields [simp]:
  "predictors (ResetDeterministic E s) = predictors s"
  "responses (ResetDeterministic E s) = responses s"
  "world (ResetDeterministic E s) = world s"
  "noiseDim (ResetDeterministic E s) = noiseDim s"
  "numFunctions (ResetDeterministic E s) = numFunctions s"
  "batchSize (ResetDeterministic E s) = batchSize s"
  "currentBatch (ResetDeterministic E s) = currentBatch s"
  "generatorUpdateStep (ResetDeterministic E s) = generatorUpdateStep s"
  "preTrainSize (ResetDeterministic E s) = preTrainSize s"
  "multiplier (ResetDeterministic E s) = multiplier s"
  "reset (ResetDeterministic E s) = reset s"
  "deterministic (ResetDeterministic E s) = deterministic s"
  "genWeights (ResetDeterministic E s) = genWeights s"
  "discWeights (ResetDeterministic E s) = discWeights s"
  "realLabel (ResetDeterministic E s) = realLabel s"
  "fakeLabel (ResetDeterministic E s) = fakeLabel s"
  "parameter (ResetDeterministic E s) = parameter s"
  "noise (ResetDeterministic E s) = noise s"
  "gradientGenerator (ResetDeterministic E s) = gradientGenerator s"
  "gradientDiscriminator (ResetDeterministic E s) = gradientDiscriminator s"
  "noiseGradientDiscriminator (ResetDeterministic E s) = noiseGradientDiscriminator s"
  "ffn_parameter (generator (ResetDeterministic E s)) = ffn_parameter (generator s)"
  "ffn_parameter (discriminator (ResetDeterministic E s)) = ffn_parameter (discriminator s)"
  "network (generator (ResetDeterministic E s)) = network (generator s)"
  "network (discriminator (ResetDeterministic E s)) = network (discriminator s)"
  by (simp_all add: ResetDeterministic_def Let_def)

lemma Reset_fields [simp]:
  "predictors (Reset E s) = predictors s"
  "responses (Reset E s) = responses s"
  "noiseDim (Reset E s) = noiseDim s"
  "numFunctions (Reset E s) = numFunctions s"
  "batchSize (Reset E s) = batchSize s"
  "currentBatch (Reset E s) = currentBatch s"
  "generatorUpdateStep (Reset E s) = generatorUpdateStep s"
  "preTrainSize (Reset E s) = preTrainSize s"
  "multiplier (Reset E s) = multiplier s"
  "reset (Reset E s) = True"
  "deterministic (Reset E s) = deterministic s"
  "genWeights (Reset E s) = sum_list (network (generator s))"
  "discWeights (Reset E s) = sum_list (network (discriminator s))"
  "realLabel (Reset E s) = realLabel s"
  "fakeLabel (Reset E s) = fakeLabel s"
  "noise (Reset E s) = noise s"
  "gradientGenerator (Reset E s) = gradientGenerator s"
  "gradientDiscriminator (Reset E s) = gradientDiscriminator s"
  "noiseGradientDiscriminator (Reset E s) = noiseGradientDiscriminator s"
  "ffn_parameter (generator (Reset E s)) = View 0 (sum_list (network (generator s)))"
  "ffn_parameter (discriminator (Reset E s)) =
     View (sum_list (network (generator s))) (sum_list (network (discriminator s)))"
  "network (generator (Reset E s)) = network (generator s)"
  "network (discriminator (Reset E s)) = network (discriminator s)"
  by (simp_all add: Reset_def Let_def split: prod.splits)

lemma Initialize_length:
  "offset + sum_list net \<le> length buf \<Longrightarrow>
   length (fst (Initialize rule net offset (buf, w))) = length buf"
proof (induction net arbitrary: offset buf w)
  case Nil
  then show ?case by simp
next
  case (Cons weight net)
  obtain f w' where r: "rule w weight = (f, w')" by (cases "rule w weight")
  have len: "length (write_seg offset (map f [0..<weight]) buf) = length buf"
    using Cons.prems by (simp add: write_seg_def)
  have "(offset + weight) + sum_list net \<le> length (write_seg offset (map f [0..<weight]) buf)"
    using Cons.prems len by simp
  from Cons.IH [OF this] len show ?case by (simp add: r)
qed

lemma Reset_parameter_length:
  "length (parameter (Reset E s))
     = sum_list (network (generator s)) + sum_list (network (discriminator s))"
proof -
  define g where "g = sum_list (network (generator s))"
  define d where "d = sum_list (network (discriminator s))"
  define buf where
    "buf = (if length (parameter s) = g + d then parameter s else map (junk E) [0..<g + d])"
  have l0: "length buf = g + d" by (simp add: buf_def)
  obtain p1 w1 where
    i1: "Initialize (initializeRule E) (network (generator s)) 0 (buf, world s) = (p1, w1)"
    by (cases "Initialize (initializeRule E) (network (generator s)) 0 (buf, world s)")
  have l1: "length p1 = g + d"
    using Initialize_length [of 0 "network (generator s)" buf "initializeRule E" "world s"] i1 l0
    by (simp add: g_def)
  obtain p2 w2 where
    i2: "Initialize (initializeRule E) (network (discriminator s)) g (p1, w1) = (p2, w2)"
    by (cases "Initialize (initializeRule E) (network (discriminator s)) g (p1, w1)")
  have l2: "length p2 = g + d"
    using Initialize_length [of g "network (discriminator s)" p1 "initializeRule E" w1] i2 l1
    by (simp add: d_def)
  have "parameter (Reset E s) = p2"
  proof (cases "length (parameter s) = g + d")
    case True
    then have "buf = parameter s" by (simp add: buf_def)
    with i1 i2 True show ?thesis
      unfolding Reset_def Let_def g_def [symmetric] d_def [symmetric] by simp
  next
    case False
    then have "buf = map (junk E) [0..<g + d]" by (simp add: buf_def)
    with i1 i2 False show ?thesis
      unfolding Reset_def Let_def g_def [symmetric] d_def [symmetric] by simp
  qed
  then show ?thesis using l2 by (simp add: g_def d_def)
qed

lemma Reset_arena_inv: "arena_inv (Reset E s)"
  by (simp add: arena_inv_def Reset_parameter_length)


lemma same_settings_refl: "same_settings s s"
  by (simp add: same_settings_def)

lemma same_settings_trans:
  "same_settings s s' \<Longrightarrow> same_settings s' s'' \<Longrightarrow> same_settings s s''"
  by (simp add: same_settings_def)

lemma same_settings_gate: "same_settings s s' \<Longrightarrow> gate s' = gate s"
  by (simp add: same_settings_def gate_def)

lemma sample_and_generate_frame:
  assumes "sample_and_generate E s = Some s'"
  shows "same_settings s s'"
    and "responses s' = responses s"
    and "gradientGenerator s' = gradientGenerator s"
    and "gradientDiscriminator s' = gradientDiscriminator s"
    and "noiseGradientDiscriminator s' = noiseGradientDiscriminator s"
    and "discriminator s' = discriminator s"
    and "ffn_parameter (generator s') = ffn_parameter (generator s)"
    and "parameter s' = parameter s"
    and "noise s' = fst (imbue (noiseFunction E) (noise s) (world s))"
    and "world s' = snd (imbue (noiseFunction E) (noise s) (world s))"
  using assms
  by (auto simp: sample_and_generate_def same_settings_def Let_def bind_eq_Some_conv
      split: prod.splits)

lemma sample_and_generate_columns:
  assumes "sample_and_generate E s = Some s'" and "0 < batchSize s"
  shows "take (batchSize s) (drop (numFunctions s) (predictors s'))
           = outputParameter E (layers (generator s'))"
proof -
  obtain nz w where im: "imbue (noiseFunction E) (noise s) (world s) = (nz, w)"
    by (cases "imbue (noiseFunction E) (noise s) (world s)")
  define s1 where "s1 = s\<lparr>noise := nz, world := w\<rparr>"
  from assms(1) im obtain gparams gl p where
    gl: "ffn_Forward E (generator s1) gparams (noise s1) = Some gl" and
    p: "cols_assign (numFunctions s) (size_t_pred (numFunctions s + batchSize s))
          (predictors s) (outputParameter E gl) = Some p" and
    s': "s' = s1\<lparr>generator := (generator s1)\<lparr>layers := gl\<rparr>, predictors := p\<rparr>"
    by (auto simp: sample_and_generate_def Let_def bind_eq_Some_conv s1_def)
  from cols_assign_range [OF p] assms(2)
  have r: "numFunctions s + batchSize s \<le> length (predictors s)"
    "length (outputParameter E gl) = batchSize s"
    "p = take (numFunctions s) (predictors s) @ outputParameter E gl
           @ drop (numFunctions s + batchSize s) (predictors s)"
    by simp_all
  show ?thesis using r by (simp add: s')
qed

lemma relabel_frame:
  assumes "relabel v s = Some s'"
  shows "\<exists>r. s' = s\<lparr>responses := r\<rparr>
           \<and> take (batchSize s) (drop (numFunctions s) r) = replicate (batchSize s) [v]"
proof -
  from assms obtain r where
    r: "cols_assign (numFunctions s) (size_t_pred (numFunctions s + batchSize s))
          (responses s) (mat_fill 1 (batchSize s) v) = Some r" and
    s': "s' = s\<lparr>responses := r\<rparr>"
    by (auto simp: relabel_def Let_def bind_eq_Some_conv)
  have "length (mat_fill 1 (batchSize s) v) = batchSize s" by (simp add: mat_fill_def)
  with cols_assign_range [OF r]
  have "numFunctions s + batchSize s \<le> length (responses s)"
    "r = take (numFunctions s) (responses s) @ mat_fill 1 (batchSize s) v
           @ drop (numFunctions s + batchSize s) (responses s)"
    by simp_all
  then have "take (batchSize s) (drop (numFunctions s) r) = replicate (batchSize s) [v]"
    by (simp add: mat_fill_def)
  with s' show ?thesis by blast
qed

lemma EWG_prepare_frame:
  assumes "EWG_prepare E gradient s = (g1, s1)"
  shows "same_settings s s1"
    and "responses s1 = responses s"
    and "\<exists>n. g1 = zeros n"
    and "gradientGenerator s1 = View 0 (n_elem (ffn_parameter (generator s1)))"
    and "gradientDiscriminator s1
           = View (n_elem (ffn_parameter (generator s1))) (n_elem (ffn_parameter (discriminator s1)))"
  using assms
  by (auto simp: EWG_prepare_def same_settings_def Let_def split: if_splits)


lemma view_write_prefix:
  assumes "view_write (View off n) xs buf = Some buf'"
  shows "off + n \<le> length buf" and "length buf' = length buf" and "take off buf' = take off buf"
  using assms by (auto split: if_splits)

lemma EWG_discriminator_frame:
  assumes run: "EWG_discriminator E i (g0, s0) = Some (res, g2, s2)"
    and view: "gradientDiscriminator s0 = View off n"
  shows "same_settings s0 s2"
    and "gradientGenerator s2 = gradientGenerator s0"
    and "gradientDiscriminator s2 = gradientDiscriminator s0"
    and "ffn_parameter (generator s2) = ffn_parameter (generator s0)"
    and "take (batchSize s0) (drop (numFunctions s0) (responses s2))
           = replicate (batchSize s0) [fakeLabel s0]"
    and "off + n \<le> length g0" and "length g2 = length g0" and "take off g2 = take off g0"
proof -
  from run obtain gd' dl g1 sa sb res2 ngd dl2 total where
    w1: "view_write (gradientDiscriminator s0) gd' g0 = Some g1" and
    sa: "sample_and_generate E (s0\<lparr>discriminator := (discriminator s0)\<lparr>layers := dl\<rparr>\<rparr>) = Some sa" and
    sb: "relabel (fakeLabel sa) sa = Some sb" and
    w2: "view_write (gradientDiscriminator sb) total g1 = Some g2" and
    s2: "s2 = sb\<lparr>discriminator := (discriminator sb)\<lparr>layers := dl2\<rparr>,
               noiseGradientDiscriminator := ngd\<rparr>"
    by (auto simp: EWG_discriminator_def Let_def bind_eq_Some_conv split: prod.splits)
  define s1 where "s1 = s0\<lparr>discriminator := (discriminator s0)\<lparr>layers := dl\<rparr>\<rparr>"
  have a: "same_settings s1 sa" "gradientGenerator sa = gradientGenerator s1"
    "gradientDiscriminator sa = gradientDiscriminator s1"
    "ffn_parameter (generator sa) = ffn_parameter (generator s1)"
    using sample_and_generate_frame [of E s1 sa] sa by (simp_all add: s1_def)
  from relabel_frame [OF sb] obtain r where
    r: "sb = sa\<lparr>responses := r\<rparr>"
       "take (batchSize sa) (drop (numFunctions sa) r) = replicate (batchSize sa) [fakeLabel sa]"
    by blast
  have st: "same_settings s0 s2"
    using a(1) by (simp add: same_settings_def s1_def s2 r(1))
  show "same_settings s0 s2" by (rule st)
  show "gradientGenerator s2 = gradientGenerator s0" using a(2) by (simp add: s1_def s2 r(1))
  show gD: "gradientDiscriminator s2 = gradientDiscriminator s0"
    using a(3) by (simp add: s1_def s2 r(1))
  show "ffn_parameter (generator s2) = ffn_parameter (generator s0)"
    using a(4) by (simp add: s1_def s2 r(1))
  show "take (batchSize s0) (drop (numFunctions s0) (responses s2))
           = replicate (batchSize s0) [fakeLabel s0]"
    using r(2) a(1) by (simp add: same_settings_def s1_def s2 r(1))
  have v1: "view_write (View off n) gd' g0 = Some g1" using w1 view by simp
  have "gradientDiscriminator sb = View off n"
    using a(3) view by (simp add: s1_def r(1))
  then have v2: "view_write (View off n) total g1 = Some g2" using w2 by simp
  from view_write_prefix [OF v1] view_write_prefix [OF v2]
  show "off + n \<le> length g0" and "length g2 = length g0" and "take off g2 = take off g0"
    by simp_all
qed

lemma EWG_generator_frame:
  assumes run: "EWG_generator E (g0, s0) = Some (g2, s2)"
  shows "same_settings s0 s2"
    and "take (batchSize s0) (drop (numFunctions s0) (responses s2))
           = replicate (batchSize s0) [realLabel s0]"
proof -
  from run obtain s1 ngd dl err gl where
    s1: "relabel (realLabel s0) s0 = Some s1" and
    s2: "s2 = s1\<lparr>discriminator := (discriminator s1)\<lparr>layers := dl\<rparr>,
               noiseGradientDiscriminator := ngd,
               generator := (generator s1)
                 \<lparr>ffn_error := err, ffn_predictors := Own (noise s1), layers := gl\<rparr>\<rparr>"
    by (auto simp: EWG_generator_def Let_def bind_eq_Some_conv split: prod.splits if_splits)
  from relabel_frame [OF s1] obtain r where
    r: "s1 = s0\<lparr>responses := r\<rparr>"
       "take (batchSize s0) (drop (numFunctions s0) r) = replicate (batchSize s0) [realLabel s0]"
    by blast
  show "same_settings s0 s2" by (simp add: same_settings_def s2 r(1))
  show "take (batchSize s0) (drop (numFunctions s0) (responses s2))
           = replicate (batchSize s0) [realLabel s0]"
    using r(2) by (simp add: s2 r(1))
qed

lemma EWG_advance_frame:
  "numFunctions (EWG_advance s) = numFunctions s"
  "batchSize (EWG_advance s) = batchSize s"
  "responses (EWG_advance s) = responses s"
  "gradientGenerator (EWG_advance s) = gradientGenerator s"
  "generator (EWG_advance s) = generator s"
  "preTrainSize (EWG_advance s) = preTrainSize s - 1"
  "currentBatch (EWG_advance s) = (currentBatch s + 1) mod 2 ^ 64"
  by (simp_all add: EWG_advance_def Let_def)


section \<open>Runs of the concrete engine\<close>

lemmas demo_eval =
  demo_ext_def demo_ffn_def demo_new_def demo_data_def demo_ready_def demo_open_def
  demo_updated_def
  n_cols_def n_rows_def zeros_def mat_fill_def set_size_def size_t_pred_def
  cols_assign_def cols_read_def cols_window_def vec_add_def write_seg_def
  GAN_new_def Parameters_of_def Predictors_of_def Responses_of_def
  ResetDeterministic_def Reset_def ResetData_def sample_and_generate_def relabel_def
  GAN_Evaluate_def EWG_prepare_def EWG_discriminator_def EWG_generator_def gate_def
  EWG_advance_def GAN_EvaluateWithGradient_def GAN_Gradient_def linspace_def cols_pick_def
  Shuffle_def Let_def

lemma upt_two: "[0..<2] = [0, Suc 0]"
  by (simp add: numeral_2_eq_2)

lemma demo_ResetData: "ResetData demo_ext demo_data 1 0 demo_new = Some demo_ready"
  by (simp add: demo_eval)

lemma demo_ready_call: "GAN_EvaluateWithGradient demo_ext 0 [] demo_ready \<noteq> None"
  by (simp add: demo_eval)

lemma demo_open_call:
  "GAN_EvaluateWithGradient demo_ext 0 [] demo_open = Some (2, [6, 2], demo_updated)"
  by (simp add: demo_eval)

lemma demo_three_calls:
  "map_option (\<lambda>s. (preTrainSize s, currentBatch s))
     (EWG_calls demo_ext [(0, []), (1, []), (0, [])] demo_ready) = Some (0, 3)"
  by (simp add: demo_eval)

lemma demo_Shuffle:
  "Shuffle demo_ext demo_ready = Some (demo_ready\<lparr>predictors := [[7], [5], [0]], world := 4\<rparr>)"
  by (simp add: demo_eval upt_two)

lemma demo_const_ResetData_again:
  "ResetData demo_const_ext [[8], [9]] 1 0 demo_updated \<noteq> None"
  by (simp add: demo_eval demo_const_ext_def)

lemma demo_Evaluate: "GAN_Evaluate demo_ext 0 demo_updated \<noteq> None"
  by (simp add: demo_eval)

section \<open>The claims on the engine\<close>

lemma EWG_unfold:
  assumes "GAN_EvaluateWithGradient E i gradient s = Some (res, gradient', s')"
  shows "\<exists>g1 s1 g2 s2 s3.
    EWG_prepare E gradient s = (g1, s1)
    \<and> EWG_discriminator E i (g1, s1) = Some (res, g2, s2)
    \<and> generatorUpdateStep s2 \<noteq> 0
    \<and> (gate s2 \<longrightarrow> EWG_generator E (g2, s2) = Some (gradient', s3))
    \<and> (\<not> gate s2 \<longrightarrow> gradient' = g2 \<and> s3 = s2)
    \<and> s' = EWG_advance s3"
proof -
  obtain g1 s1 where p: "EWG_prepare E gradient s = (g1, s1)"
    by (cases "EWG_prepare E gradient s")
  from assms p obtain g2 s2 s3 where
    "EWG_discriminator E i (g1, s1) = Some (res, g2, s2)"
    "generatorUpdateStep s2 \<noteq> 0"
    "(if gate s2 then EWG_generator E (g2, s2) else Some (g2, s2)) = Some (gradient', s3)"
    "s' = EWG_advance s3"
    by (auto simp: GAN_EvaluateWithGradient_def bind_eq_Some_conv split: prod.splits if_splits)
  with p show ?thesis by (auto split: if_splits)
qed

text \<open>
  C1. On every call of \<open>EvaluateWithGradient\<close> that returns and on which the gate
  \<open>currentBatch mod generatorUpdateStep = 0\<close> and \<open>preTrainSize = 0\<close> does not hold,
  the generator segment of the returned gradient (the view from position 0, as long as the
  generator's parameters) is all zero: the generator segment is other than zero only on a
  call that takes the gate.
\<close>

theorem C1_generator_gradient_gated:
  assumes "GAN_EvaluateWithGradient E i gradient s = Some (res, gradient', s')"
    and "\<not> gate s"
  shows "gradientGenerator s' = View 0 (n_elem (ffn_parameter (generator s')))
         \<and> view_read (gradientGenerator s') gradient'
             = Some (zeros (n_elem (ffn_parameter (generator s'))))"
proof -
  from EWG_unfold [OF assms(1)] obtain g1 s1 g2 s2 s3 where
    p: "EWG_prepare E gradient s = (g1, s1)" and
    d: "EWG_discriminator E i (g1, s1) = Some (res, g2, s2)" and
    nz: "generatorUpdateStep s2 \<noteq> 0" and
    g: "gate s2 \<longrightarrow> EWG_generator E (g2, s2) = Some (gradient', s3)" and
    ng: "\<not> gate s2 \<longrightarrow> gradient' = g2 \<and> s3 = s2" and
    s': "s' = EWG_advance s3"
    by blast
  define gn where "gn = n_elem (ffn_parameter (generator s1))"
  define dn where "dn = n_elem (ffn_parameter (discriminator s1))"
  from EWG_prepare_frame [OF p] obtain L where
    f1: "same_settings s s1" "g1 = zeros L"
        "gradientGenerator s1 = View 0 gn" "gradientDiscriminator s1 = View gn dn"
    by (auto simp: gn_def dn_def)
  from EWG_discriminator_frame [OF d f1(4)]
  have f2: "same_settings s1 s2" "gradientGenerator s2 = gradientGenerator s1"
      "ffn_parameter (generator s2) = ffn_parameter (generator s1)"
      "gn + dn \<le> length g1" "length g2 = length g1" "take gn g2 = take gn g1"
    by simp_all
  have "gate s2 = gate s"
    using same_settings_gate [OF f1(1)] same_settings_gate [OF f2(1)] by simp
  with assms(2) ng have e: "gradient' = g2" "s3 = s2" by simp_all
  have gG: "gradientGenerator s' = View 0 gn"
    using f1(3) f2(2) by (simp add: s' e EWG_advance_frame)
  have gp: "n_elem (ffn_parameter (generator s')) = gn"
    using f2(3) by (simp add: s' e EWG_advance_frame gn_def)
  have "gn \<le> L" using f2(4) f1(2) by (simp add: zeros_def)
  then have "take gn g2 = zeros gn" using f2(6) f1(2) by (simp add: zeros_def min_def)
  moreover have "gn \<le> length g2" using f2(4) f2(5) by simp
  ultimately have "view_read (View 0 gn) g2 = Some (zeros gn)" by simp
  with gG gp e show ?thesis by simp
qed

text \<open>A call on \<open>demo_ready\<close>, where the pretraining is not over.\<close>

theorem C1_witness:
  "GAN_EvaluateWithGradient demo_ext 0 [] demo_ready \<noteq> None
   \<and> \<not> gate demo_ready
   \<and> map_option (\<lambda>(res, g, s). view_read (gradientGenerator s) g)
        (GAN_EvaluateWithGradient demo_ext 0 [] demo_ready) = Some (Some [0])"
proof -
  from demo_ready_call obtain res g s' where
    r: "GAN_EvaluateWithGradient demo_ext 0 [] demo_ready = Some (res, g, s')"
    by auto
  have ng: "\<not> gate demo_ready" by (simp add: gate_def demo_ready_def)
  have "map_option (\<lambda>(res, g, s). n_elem (ffn_parameter (generator s)))
          (GAN_EvaluateWithGradient demo_ext 0 [] demo_ready) = Some 1"
    by (simp add: demo_eval)
  then have n: "n_elem (ffn_parameter (generator s')) = 1" by (simp add: r)
  from C1_generator_gradient_gated [OF r ng]
  have "view_read (gradientGenerator s') g = Some (zeros (n_elem (ffn_parameter (generator s'))))"
    by blast
  then have v: "view_read (gradientGenerator s') g = Some [0]"
    by (simp only: n zeros_def replicate.simps One_nat_def)
  have "map_option (\<lambda>(res, g, s). view_read (gradientGenerator s) g)
          (GAN_EvaluateWithGradient demo_ext 0 [] demo_ready) = Some (Some [0])"
    by (simp only: r option.map prod.case v)
  with demo_ready_call ng show ?thesis by blast
qed

text \<open>
  C2. After every call of \<open>EvaluateWithGradient\<close> that returns, the responses of the
  generated columns \<open>[numFunctions, numFunctions + batchSize)\<close> are \<open>fakeLabel\<close>,
  except after a call that takes the gate: then they are \<open>realLabel\<close>, and they stay so
  until the next call labels them again.
\<close>

theorem C2_generated_labels_after_call:
  assumes "GAN_EvaluateWithGradient E i gradient s = Some (res, gradient', s')"
  shows "numFunctions s' = numFunctions s \<and> batchSize s' = batchSize s
         \<and> take (batchSize s') (drop (numFunctions s') (responses s'))
             = replicate (batchSize s') [if gate s then realLabel s else fakeLabel s]"
proof -
  from EWG_unfold [OF assms(1)] obtain g1 s1 g2 s2 s3 where
    p: "EWG_prepare E gradient s = (g1, s1)" and
    d: "EWG_discriminator E i (g1, s1) = Some (res, g2, s2)" and
    nz: "generatorUpdateStep s2 \<noteq> 0" and
    g: "gate s2 \<longrightarrow> EWG_generator E (g2, s2) = Some (gradient', s3)" and
    ng: "\<not> gate s2 \<longrightarrow> gradient' = g2 \<and> s3 = s2" and
    s': "s' = EWG_advance s3"
    by blast
  from EWG_prepare_frame [OF p] obtain off n where
    f1: "same_settings s s1" "gradientDiscriminator s1 = View off n"
    by blast
  from EWG_discriminator_frame [OF d f1(2)]
  have f2: "same_settings s1 s2"
    "take (batchSize s1) (drop (numFunctions s1) (responses s2))
       = replicate (batchSize s1) [fakeLabel s1]"
    by simp_all
  have st: "same_settings s s2" using f1(1) f2(1) by (rule same_settings_trans)
  have gt: "gate s2 = gate s" using same_settings_gate [OF st] .
  show ?thesis
  proof (cases "gate s")
    case True
    with gt g have r: "EWG_generator E (g2, s2) = Some (gradient', s3)" by simp
    from EWG_generator_frame [OF r] st True show ?thesis
      by (simp add: s' EWG_advance_frame same_settings_def)
  next
    case False
    with gt ng have "s3 = s2" by simp
    with f2(2) f1(1) st False show ?thesis
      by (simp add: s' EWG_advance_frame same_settings_def)
  qed
qed

text \<open>A call on \<open>demo_open\<close>, which takes the gate: the generated column is labelled real.\<close>

theorem C2_witness:
  "GAN_EvaluateWithGradient demo_ext 0 [] demo_open = Some (2, [6, 2], demo_updated)
   \<and> gate demo_open
   \<and> take (batchSize demo_updated) (drop (numFunctions demo_updated) (responses demo_updated))
       = replicate (batchSize demo_updated) [realLabel demo_open]"
proof -
  have g: "gate demo_open" by (simp add: gate_def demo_open_def demo_ready_def)
  from C2_generated_labels_after_call [OF demo_open_call]
  have "take (batchSize demo_updated) (drop (numFunctions demo_updated) (responses demo_updated))
       = replicate (batchSize demo_updated) [if gate demo_open then realLabel demo_open else fakeLabel demo_open]"
    by blast
  with g have "take (batchSize demo_updated) (drop (numFunctions demo_updated) (responses demo_updated))
       = replicate (batchSize demo_updated) [realLabel demo_open]"
    by (simp only: if_True)
  with g demo_open_call show ?thesis by blast
qed

lemma EWG_counters:
  assumes "GAN_EvaluateWithGradient E i gradient s = Some (res, gradient', s')"
  shows "preTrainSize s' = preTrainSize s - 1"
    and "currentBatch s' = (currentBatch s + 1) mod 2 ^ 64"
proof -
  from EWG_unfold [OF assms(1)] obtain g1 s1 g2 s2 s3 where
    p: "EWG_prepare E gradient s = (g1, s1)" and
    d: "EWG_discriminator E i (g1, s1) = Some (res, g2, s2)" and
    nz: "generatorUpdateStep s2 \<noteq> 0" and
    g: "gate s2 \<longrightarrow> EWG_generator E (g2, s2) = Some (gradient', s3)" and
    ng: "\<not> gate s2 \<longrightarrow> gradient' = g2 \<and> s3 = s2" and
    s': "s' = EWG_advance s3"
    by blast
  from EWG_prepare_frame [OF p] obtain off n where
    f1: "same_settings s s1" "gradientDiscriminator s1 = View off n"
    by blast
  from EWG_discriminator_frame [OF d f1(2)] have f2: "same_settings s1 s2" by simp
  have "same_settings s2 s3"
  proof (cases "gate s2")
    case True
    from g True have "EWG_generator E (g2, s2) = Some (gradient', s3)" by simp
    from EWG_generator_frame(1) [OF this] show ?thesis .
  next
    case False
    with ng show ?thesis by (simp add: same_settings_refl)
  qed
  with f1(1) f2 have "same_settings s s3" by (blast intro: same_settings_trans)
  then show "preTrainSize s' = preTrainSize s - 1"
    and "currentBatch s' = (currentBatch s + 1) mod 2 ^ 64"
    by (simp_all add: s' EWG_advance_frame same_settings_def)
qed

text \<open>
  C8. From every state and for every index, \<open>Gradient\<close> returns exactly when
  \<open>EvaluateWithGradient\<close> does, with the same gradient and the same state of the engine
  (the source of randomness included); only the loss is dropped.
\<close>

theorem C8_Gradient_is_EvaluateWithGradient:
  "(GAN_Gradient E i gradient s = None \<longleftrightarrow> GAN_EvaluateWithGradient E i gradient s = None)
   \<and> (\<forall>res gradient' s'.
         GAN_EvaluateWithGradient E i gradient s = Some (res, gradient', s')
         \<longrightarrow> GAN_Gradient E i gradient s = Some (gradient', s'))
   \<and> (\<forall>gradient' s'.
         GAN_Gradient E i gradient s = Some (gradient', s')
         \<longrightarrow> (\<exists>res. GAN_EvaluateWithGradient E i gradient s = Some (res, gradient', s')))"
  by (cases "GAN_EvaluateWithGradient E i gradient s") (auto simp: GAN_Gradient_def)

text \<open>Both entry points on \<open>demo_open\<close>.\<close>

theorem C8_witness:
  "GAN_EvaluateWithGradient demo_ext 0 [] demo_open = Some (2, [6, 2], demo_updated)
   \<and> GAN_Gradient demo_ext 0 [] demo_open = Some ([6, 2], demo_updated)"
proof -
  from C8_Gradient_is_EvaluateWithGradient [of demo_ext 0 "[]" demo_open]
  have "\<forall>res gradient' s'.
         GAN_EvaluateWithGradient demo_ext 0 [] demo_open = Some (res, gradient', s')
         \<longrightarrow> GAN_Gradient demo_ext 0 [] demo_open = Some (gradient', s')"
    by blast
  with demo_open_call show ?thesis by blast
qed

text \<open>
  C4. Along every run of calls of \<open>EvaluateWithGradient\<close> that return,
  \<open>preTrainSize\<close> goes down by one per call while it is positive and stays at zero
  afterwards (truncated subtraction on the naturals), and \<open>currentBatch\<close> goes up by one
  per call, as long as the \<open>size_t\<close> counter does not reach \<open>2 ^ 64\<close>.
\<close>

theorem C4_counters_along_calls:
  assumes "EWG_calls E cs s = Some s'" and "currentBatch s + length cs < 2 ^ 64"
  shows "preTrainSize s' = preTrainSize s - length cs
         \<and> currentBatch s' = currentBatch s + length cs"
  using assms
proof (induction cs arbitrary: s)
  case Nil
  then show ?case by simp
next
  case (Cons c cs)
  obtain i gradient where c: "c = (i, gradient)" by (cases c)
  from Cons.prems(1) c obtain res gradient' s1 where
    one: "GAN_EvaluateWithGradient E i gradient s = Some (res, gradient', s1)" and
    rest: "EWG_calls E cs s1 = Some s'"
    by (auto split: option.splits)
  have small: "currentBatch s + 1 < (2::nat) ^ 64"
    using Cons.prems(2) by simp
  have k1: "preTrainSize s1 = preTrainSize s - 1"
    using EWG_counters(1) [OF one] .
  have k2: "currentBatch s1 = currentBatch s + 1"
    using EWG_counters(2) [OF one] mod_less [OF small] by simp
  have "currentBatch s1 + length cs < 2 ^ 64"
    using Cons.prems(2) k2 by simp
  from Cons.IH [OF rest this] k1 k2 show ?case by simp
qed

text \<open>Three calls from \<open>demo_ready\<close>, the third through the gate.\<close>

theorem C4_witness:
  "EWG_calls demo_ext [(0, []), (1, []), (0, [])] demo_ready \<noteq> None
   \<and> currentBatch demo_ready + length [(0::nat, []::vec), (1, []), (0, [])] < 2 ^ 64
   \<and> map_option (\<lambda>s. (preTrainSize s, currentBatch s))
        (EWG_calls demo_ext [(0, []), (1, []), (0, [])] demo_ready)
       = Some (preTrainSize demo_ready - 3, currentBatch demo_ready + 3)"
proof -
  from demo_three_calls obtain s' where
    r: "EWG_calls demo_ext [(0, []), (1, []), (0, [])] demo_ready = Some s'"
    by auto
  have b: "currentBatch demo_ready + length [(0::nat, []::vec), (1, []), (0, [])] < 2 ^ 64"
    by (simp add: demo_ready_def)
  from C4_counters_along_calls [OF r b]
  have "preTrainSize s' = preTrainSize demo_ready - 3 \<and> currentBatch s' = currentBatch demo_ready + 3"
    by simp
  then have "map_option (\<lambda>s. (preTrainSize s, currentBatch s))
        (EWG_calls demo_ext [(0, []), (1, []), (0, [])] demo_ready)
       = Some (preTrainSize demo_ready - 3, currentBatch demo_ready + 3)"
    by (simp only: r option.map)
  with r b show ?thesis by simp
qed

lemma ResetData_frame:
  assumes "ResetData E trainData rLabel fLabel s = Some s'"
  shows "\<exists>t. s' = (if reset s then t else Reset E t)
           \<and> parameter t = parameter s
           \<and> ffn_parameter (generator t) = ffn_parameter (generator s)
           \<and> ffn_parameter (discriminator t) = ffn_parameter (discriminator s)
           \<and> network (generator t) = network (generator s)
           \<and> network (discriminator t) = network (discriminator s)
           \<and> genWeights t = genWeights s \<and> discWeights t = discWeights s
           \<and> reset t = reset s"
proof -
  define s4 where
    "s4 = (let s1 = s\<lparr>currentBatch := 0, realLabel := rLabel, fakeLabel := fLabel\<rparr>;
               s2 = s1\<lparr>numFunctions := n_cols trainData\<rparr>;
               s3 = s2\<lparr>noise := set_size (junk E) (noiseDim s2) (batchSize s2)\<rparr>
           in ResetDeterministic E (s3\<lparr>deterministic := True\<rparr>))"
  have f4: "parameter s4 = parameter s"
    "ffn_parameter (generator s4) = ffn_parameter (generator s)"
    "ffn_parameter (discriminator s4) = ffn_parameter (discriminator s)"
    "network (generator s4) = network (generator s)"
    "network (discriminator s4) = network (discriminator s)"
    "genWeights s4 = genWeights s" "discWeights s4 = discWeights s" "reset s4 = reset s"
    by (simp_all add: s4_def Let_def)
  define finish where
    "finish = (\<lambda>p. let s5 = s4\<lparr>predictors := p\<rparr>;
                        s6 = s5\<lparr>discriminator := (discriminator s5)\<lparr>ffn_predictors := Alias\<rparr>\<rparr>;
                        fakeResponses = mat_fill 1 (batchSize s6) fLabel;
                        s7 = s6\<lparr>responses := mat_fill 1 (numFunctions s6) rLabel @ fakeResponses\<rparr>;
                        s8 = s7\<lparr>discriminator := (discriminator s7)\<lparr>ffn_responses := Alias\<rparr>\<rparr>;
                        s9 = s8\<lparr>generator := (generator s8)
                               \<lparr>ffn_predictors := Own (set_size (junk E) (noiseDim s8) (batchSize s8))\<rparr>\<rparr>
                    in s9\<lparr>generator := (generator s9)
                               \<lparr>ffn_responses :=
                                  Own (set_size (junk E) (n_rows (predictors s9)) (batchSize s9))\<rparr>\<rparr>)"
  have ff: "parameter (finish p) = parameter s4"
    "ffn_parameter (generator (finish p)) = ffn_parameter (generator s4)"
    "ffn_parameter (discriminator (finish p)) = ffn_parameter (discriminator s4)"
    "network (generator (finish p)) = network (generator s4)"
    "network (discriminator (finish p)) = network (discriminator s4)"
    "genWeights (finish p) = genWeights s4" "discWeights (finish p) = discWeights s4"
    "reset (finish p) = reset s4" for p
    by (simp_all add: finish_def Let_def)
  have "ResetData E trainData rLabel fLabel s =
          Option.bind
            (cols_assign 0 (size_t_pred (numFunctions s4))
               (set_size (junk E) (n_rows trainData) (numFunctions s4 + batchSize s4)) trainData)
            (\<lambda>p. Some (if \<not> reset (finish p) then Reset E (finish p) else finish p))"
    unfolding ResetData_def s4_def finish_def Let_def by (rule refl)
  with assms obtain p where
    "s' = (if \<not> reset (finish p) then Reset E (finish p) else finish p)"
    by (auto simp: bind_eq_Some_conv)
  then have "s' = (if reset s then finish p else Reset E (finish p))"
    by (simp add: ff f4)
  with ff f4 show ?thesis by metis
qed

lemma arena_inv_views:
  assumes "arena_inv s"
  shows "view_indices (ffn_parameter (generator s)) = {0..<genWeights s}"
    and "view_indices (ffn_parameter (discriminator s))
           = {genWeights s..<genWeights s + discWeights s}"
    and "view_indices (ffn_parameter (generator s))
           \<inter> view_indices (ffn_parameter (discriminator s)) = {}"
    and "view_indices (ffn_parameter (generator s))
           \<union> view_indices (ffn_parameter (discriminator s)) = {0..<length (parameter s)}"
  using assms by (auto simp: arena_inv_def)

text \<open>
  C3. After \<open>ResetData\<close>, on an engine never reset before or reset before with the
  buffer as \<open>Reset\<close> leaves it, the shared parameter buffer has length
  \<open>genWeights + discWeights\<close>, the two counts are the sums of the weight sizes of the
  layers, the generator's view covers exactly \<open>[0, genWeights)\<close> and the
  discriminator's exactly \<open>[genWeights, genWeights + discWeights)\<close>: the two views are
  disjoint and cover the buffer. \<open>Reset\<close> alone establishes the same from any state.
\<close>

theorem C3_parameter_buffer_partition:
  assumes "ResetData E trainData rLabel fLabel s = Some s'"
    and "reset s \<longrightarrow> arena_inv s"
  shows "length (parameter s') = genWeights s' + discWeights s'
         \<and> genWeights s' = sum_list (network (generator s'))
         \<and> discWeights s' = sum_list (network (discriminator s'))
         \<and> view_indices (ffn_parameter (generator s')) = {0..<genWeights s'}
         \<and> view_indices (ffn_parameter (discriminator s'))
               = {genWeights s'..<genWeights s' + discWeights s'}
         \<and> view_indices (ffn_parameter (generator s'))
               \<inter> view_indices (ffn_parameter (discriminator s')) = {}
         \<and> view_indices (ffn_parameter (generator s'))
               \<union> view_indices (ffn_parameter (discriminator s')) = {0..<length (parameter s')}
         \<and> arena_inv (Reset E s)"
proof -
  from ResetData_frame [OF assms(1)] obtain t where
    t: "s' = (if reset s then t else Reset E t)" "parameter t = parameter s"
       "ffn_parameter (generator t) = ffn_parameter (generator s)"
       "ffn_parameter (discriminator t) = ffn_parameter (discriminator s)"
       "network (generator t) = network (generator s)"
       "network (discriminator t) = network (discriminator s)"
       "genWeights t = genWeights s" "discWeights t = discWeights s"
    by blast
  have inv: "arena_inv s'"
  proof (cases "reset s")
    case True
    with assms(2) have "arena_inv s" by simp
    with t True show ?thesis by (simp add: arena_inv_def)
  next
    case False
    with t(1) show ?thesis by (simp add: Reset_arena_inv)
  qed
  from inv arena_inv_views [OF inv] Reset_arena_inv [of E s] show ?thesis
    by (simp add: arena_inv_def)
qed

text \<open>The first \<open>ResetData\<close> of the engine \<open>demo_new\<close>.\<close>

theorem C3_witness:
  "ResetData demo_ext demo_data 1 0 demo_new = Some demo_ready
   \<and> \<not> reset demo_new
   \<and> length (parameter demo_ready) = genWeights demo_ready + discWeights demo_ready
   \<and> view_indices (ffn_parameter (generator demo_ready)) = {0..<genWeights demo_ready}
   \<and> view_indices (ffn_parameter (discriminator demo_ready))
       = {genWeights demo_ready..<genWeights demo_ready + discWeights demo_ready}"
proof -
  have nr: "\<not> reset demo_new" by (simp add: demo_new_def GAN_new_def)
  then have h: "reset demo_new \<longrightarrow> arena_inv demo_new" by simp
  from C3_parameter_buffer_partition [OF demo_ResetData h] nr demo_ResetData show ?thesis
    by blast
qed

lemma Reset_ignores_latch: "Reset E (s\<lparr>reset := b\<rparr>) = Reset E s"
  by (simp add: Reset_def Let_def split: prod.splits)

lemma Reset_world_parameter:
  "(parameter (Reset E s), world (Reset E s))
     = Initialize (initializeRule E) (network (discriminator s)) (sum_list (network (generator s)))
         (Initialize (initializeRule E) (network (generator s)) 0
            (if length (parameter s)
                  = sum_list (network (generator s)) + sum_list (network (discriminator s))
             then parameter s
             else map (junk E)
                    [0..<sum_list (network (generator s)) + sum_list (network (discriminator s))],
             world s))"
  by (simp add: Reset_def Let_def split: prod.splits)

lemma Reset_second_run:
  "(parameter (Reset E (Reset E s)), world (Reset E (Reset E s)))
     = Initialize (initializeRule E) (network (discriminator s)) (sum_list (network (generator s)))
         (Initialize (initializeRule E) (network (generator s)) 0
            (parameter (Reset E s), world (Reset E s)))"
  using Reset_world_parameter [of E "Reset E s"] by (simp add: Reset_parameter_length)

lemma write_seg_twice:
  assumes "off + length xs + length ys \<le> length buf"
  shows "write_seg (off + length xs) ys (write_seg off xs buf) = write_seg off (xs @ ys) buf"
proof -
  have a: "take (off + length xs) (take off buf @ xs @ drop (off + length xs) buf)
             = take off buf @ xs"
    using assms by simp
  have b: "drop (off + length xs + length ys) (take off buf @ xs @ drop (off + length xs) buf)
             = drop (off + length xs + length ys) buf"
    using assms by (simp add: ac_simps)
  show ?thesis
    unfolding write_seg_def using a b by (simp add: add.assoc)
qed

lemma Initialize_stateless:
  assumes "\<forall>w n. rule w n = (f n, w)" and "offset + sum_list net \<le> length buf"
  shows "Initialize rule net offset (buf, w)
           = (write_seg offset (concat (map (\<lambda>weight. map (f weight) [0..<weight]) net)) buf, w)"
  using assms(2)
proof (induction net arbitrary: offset buf)
  case Nil
  then show ?case by (simp add: write_seg_def)
next
  case (Cons weight net)
  let ?xs = "map (f weight) [0..<weight]"
  let ?ys = "concat (map (\<lambda>weight. map (f weight) [0..<weight]) net)"
  have ly: "length ?ys = sum_list net"
    by (simp add: length_concat comp_def)
  have len: "length (write_seg offset ?xs buf) = length buf"
    using Cons.prems by (simp add: write_seg_def)
  have fit: "(offset + weight) + sum_list net \<le> length (write_seg offset ?xs buf)"
    using Cons.prems len by simp
  have "Initialize rule (weight # net) offset (buf, w)
          = Initialize rule net (offset + weight) (write_seg offset ?xs buf, w)"
    using assms(1) by simp
  also have "\<dots> = (write_seg (offset + weight) ?ys (write_seg offset ?xs buf), w)"
    using Cons.IH [OF fit] .
  also have "write_seg (offset + weight) ?ys (write_seg offset ?xs buf)
               = write_seg offset (?xs @ ?ys) buf"
    using write_seg_twice [of offset ?xs ?ys buf] Cons.prems ly by simp
  finally show ?case by simp
qed

lemma Reset_stateless:
  assumes "\<forall>w n. initializeRule E w n = (f n, w)"
  shows "parameter (Reset E s)
           = concat (map (\<lambda>weight. map (f weight) [0..<weight]) (network (generator s)))
             @ concat (map (\<lambda>weight. map (f weight) [0..<weight]) (network (discriminator s)))"
    and "world (Reset E s) = world s"
proof -
  define g where "g = sum_list (network (generator s))"
  define d where "d = sum_list (network (discriminator s))"
  define G where "G = concat (map (\<lambda>weight. map (f weight) [0..<weight]) (network (generator s)))"
  define D where "D = concat (map (\<lambda>weight. map (f weight) [0..<weight]) (network (discriminator s)))"
  define buf where
    "buf = (if length (parameter s) = g + d then parameter s else map (junk E) [0..<g + d])"
  have lb: "length buf = g + d" by (simp add: buf_def)
  have lG: "length G = g" by (simp add: G_def g_def length_concat comp_def)
  have lD: "length D = d" by (simp add: D_def d_def length_concat comp_def)
  have i1: "Initialize (initializeRule E) (network (generator s)) 0 (buf, world s)
              = (write_seg 0 G buf, world s)"
    using Initialize_stateless [OF assms, of 0 "network (generator s)" buf "world s"] lb
    by (simp add: G_def g_def)
  have l1: "length (write_seg 0 G buf) = g + d" using lG lb by (simp add: write_seg_def)
  have i2: "Initialize (initializeRule E) (network (discriminator s)) g (write_seg 0 G buf, world s)
              = (write_seg g D (write_seg 0 G buf), world s)"
    using Initialize_stateless [OF assms, of g "network (discriminator s)" "write_seg 0 G buf" "world s"] l1
    by (simp add: D_def d_def)
  have e: "write_seg g D (write_seg 0 G buf) = G @ D"
    using lG lD lb by (simp add: write_seg_def)
  have "(parameter (Reset E s), world (Reset E s)) = (G @ D, world s)"
    using Reset_world_parameter [of E s] i1 i2 e
    unfolding g_def [symmetric] d_def [symmetric] buf_def [symmetric] by simp
  then show "parameter (Reset E s)
           = concat (map (\<lambda>weight. map (f weight) [0..<weight]) (network (generator s)))
             @ concat (map (\<lambda>weight. map (f weight) [0..<weight]) (network (discriminator s)))"
    and "world (Reset E s) = world s"
    by (simp_all add: G_def D_def)
qed

lemma Reset_twice_stateless:
  assumes "\<forall>w n. initializeRule E w n = (f n, w)"
  shows "parameter (Reset E (Reset E s)) = parameter (Reset E s)"
    and "world (Reset E (Reset E s)) = world (Reset E s)"
  using Reset_stateless [OF assms, of "Reset E s"] Reset_stateless [OF assms, of s]
  by simp_all

text \<open>
  C9, as stated, fails: with an initialization rule that draws from a stateful source, the
  second \<open>Reset\<close> of the engine \<open>demo_new\<close> leaves other weights than the first.
\<close>

theorem C9_second_Reset_reinitializes:
  "parameter (Reset demo_ext (Reset demo_ext demo_new)) \<noteq> parameter (Reset demo_ext demo_new)"
  by (simp add: demo_eval)

text \<open>
  C9, as amended. \<open>Reset\<close> sets the latch \<open>reset\<close> and never reads it: its result
  is the same whatever the latch was. \<open>ResetData\<close> alone reads the latch: on an engine
  whose latch is set it leaves the parameter buffer with its weights and both parameter
  views as they were. A second \<open>Reset\<close> keeps the length of the buffer and installs the
  same two views, and runs the initialization rule again on both networks: the weights and
  the source of randomness are those of that second run. They are the weights of the first
  run when the rule is stateless, that is, when its values depend on the size of the layer
  alone and it leaves its source as it was.
\<close>

theorem C9_latch_read_by_ResetData_only:
  "(reset s \<longrightarrow> ResetData E trainData rLabel fLabel s = Some s' \<longrightarrow>
      parameter s' = parameter s
      \<and> ffn_parameter (generator s') = ffn_parameter (generator s)
      \<and> ffn_parameter (discriminator s') = ffn_parameter (discriminator s)
      \<and> reset s')
   \<and> Reset E (s\<lparr>reset := b\<rparr>) = Reset E s
   \<and> reset (Reset E s)
   \<and> length (parameter (Reset E (Reset E s))) = length (parameter (Reset E s))
   \<and> ffn_parameter (generator (Reset E (Reset E s))) = ffn_parameter (generator (Reset E s))
   \<and> ffn_parameter (discriminator (Reset E (Reset E s)))
         = ffn_parameter (discriminator (Reset E s))
   \<and> (parameter (Reset E (Reset E s)), world (Reset E (Reset E s)))
         = Initialize (initializeRule E) (network (discriminator s))
             (sum_list (network (generator s)))
             (Initialize (initializeRule E) (network (generator s)) 0
                (parameter (Reset E s), world (Reset E s)))
   \<and> ((\<forall>w n. initializeRule E w n = (f n, w)) \<longrightarrow>
         parameter (Reset E (Reset E s)) = parameter (Reset E s)
         \<and> world (Reset E (Reset E s)) = world (Reset E s))"
proof -
  have latch: "reset s \<longrightarrow> ResetData E trainData rLabel fLabel s = Some s' \<longrightarrow>
      parameter s' = parameter s
      \<and> ffn_parameter (generator s') = ffn_parameter (generator s)
      \<and> ffn_parameter (discriminator s') = ffn_parameter (discriminator s)
      \<and> reset s'"
  proof (intro impI)
    assume rs: "reset s" and rd: "ResetData E trainData rLabel fLabel s = Some s'"
    from ResetData_frame [OF rd] rs obtain t where
      "s' = t" "parameter t = parameter s"
      "ffn_parameter (generator t) = ffn_parameter (generator s)"
      "ffn_parameter (discriminator t) = ffn_parameter (discriminator s)"
      "reset t = reset s"
      by auto
    with rs show "parameter s' = parameter s
      \<and> ffn_parameter (generator s') = ffn_parameter (generator s)
      \<and> ffn_parameter (discriminator s') = ffn_parameter (discriminator s)
      \<and> reset s'"
      by simp
  qed
  have shape: "reset (Reset E s)
     \<and> length (parameter (Reset E (Reset E s))) = length (parameter (Reset E s))
     \<and> ffn_parameter (generator (Reset E (Reset E s))) = ffn_parameter (generator (Reset E s))
     \<and> ffn_parameter (discriminator (Reset E (Reset E s)))
           = ffn_parameter (discriminator (Reset E s))"
    by (simp add: Reset_parameter_length)
  have stateless: "(\<forall>w n. initializeRule E w n = (f n, w)) \<longrightarrow>
         parameter (Reset E (Reset E s)) = parameter (Reset E s)
         \<and> world (Reset E (Reset E s)) = world (Reset E s)"
    using Reset_twice_stateless [of E f s] by blast
  from latch Reset_ignores_latch [where E = E and s = s and b = b] shape
    Reset_second_run [of E s] stateless
  show ?thesis by blast
qed

text \<open>
  An engine that has trained, with the stateless rule: a second \<open>ResetData\<close> with other
  data, and two calls of \<open>Reset\<close>.
\<close>

theorem C9_witness:
  "reset demo_updated
   \<and> ResetData demo_const_ext [[8], [9]] 1 0 demo_updated \<noteq> None
   \<and> (\<forall>w n. initializeRule demo_const_ext w n = (\<lambda>i. 7, w))
   \<and> map_option parameter (ResetData demo_const_ext [[8], [9]] 1 0 demo_updated)
       = Some (parameter demo_updated)
   \<and> map_option (\<lambda>s. ffn_parameter (generator s))
        (ResetData demo_const_ext [[8], [9]] 1 0 demo_updated)
       = Some (ffn_parameter (generator demo_updated))
   \<and> map_option (\<lambda>s. ffn_parameter (discriminator s))
        (ResetData demo_const_ext [[8], [9]] 1 0 demo_updated)
       = Some (ffn_parameter (discriminator demo_updated))
   \<and> parameter (Reset demo_const_ext (Reset demo_const_ext demo_updated))
       = parameter (Reset demo_const_ext demo_updated)"
proof -
  have rs: "reset demo_updated" by (simp add: demo_updated_def demo_open_def demo_ready_def)
  have st: "\<forall>w n. initializeRule demo_const_ext w n = ((\<lambda>n i. 7) n, w)"
    by (simp add: demo_const_ext_def demo_ext_def)
  from demo_const_ResetData_again obtain s' where
    r: "ResetData demo_const_ext [[8], [9]] 1 0 demo_updated = Some s'"
    by auto
  note inst = C9_latch_read_by_ResetData_only [where s = demo_updated and E = demo_const_ext
      and trainData = "[[8], [9]]" and rLabel = 1 and fLabel = 0 and s' = s'
      and b = True and f = "\<lambda>n i. 7"]
  from inst rs r
  have a: "parameter s' = parameter demo_updated
      \<and> ffn_parameter (generator s') = ffn_parameter (generator demo_updated)
      \<and> ffn_parameter (discriminator s') = ffn_parameter (discriminator demo_updated)"
    by blast
  from inst st
  have b: "parameter (Reset demo_const_ext (Reset demo_const_ext demo_updated))
       = parameter (Reset demo_const_ext demo_updated)"
    by blast
  from a have c: "map_option parameter (ResetData demo_const_ext [[8], [9]] 1 0 demo_updated)
       = Some (parameter demo_updated)
   \<and> map_option (\<lambda>s. ffn_parameter (generator s))
        (ResetData demo_const_ext [[8], [9]] 1 0 demo_updated)
       = Some (ffn_parameter (generator demo_updated))
   \<and> map_option (\<lambda>s. ffn_parameter (discriminator s))
        (ResetData demo_const_ext [[8], [9]] 1 0 demo_updated)
       = Some (ffn_parameter (discriminator demo_updated))"
    by (simp only: r option.map)
  have st': "\<forall>w n. initializeRule demo_const_ext w n = (\<lambda>i. 7, w)"
    using st by simp
  from rs demo_const_ResetData_again st' c b show ?thesis by blast
qed

lemma linspace_upt: "1 \<le> N \<Longrightarrow> linspace N = [0..<N]"
  by (cases "N = 1") (simp_all add: linspace_def size_t_pred_def)

lemma picked_mset:
  assumes "mset xs = mset [0..<N]" and "N \<le> length M"
  shows "mset (map (\<lambda>j. M ! j) xs) = mset (take N M)"
proof -
  have "mset (map (\<lambda>j. M ! j) xs) = image_mset (\<lambda>j. M ! j) (mset xs)" by simp
  also have "\<dots> = image_mset (\<lambda>j. M ! j) (mset [0..<N])" using assms(1) by simp
  also have "\<dots> = mset (map (\<lambda>j. M ! j) [0..<N])" by simp
  also have "map (\<lambda>j. M ! j) [0..<N] = take N M"
    using assms(2) by (intro nth_equalityI) simp_all
  finally show ?thesis .
qed

text \<open>
  C7. With at least one real sample, and \<open>arma::shuffle\<close> returning a permutation of
  the indices it is given, \<open>Shuffle\<close> permutes the real columns
  \<open>[0, numFunctions)\<close> of the predictors: their multiset is the one before the call,
  and the columns from \<open>numFunctions\<close> on, the generator's, are unchanged.
\<close>

theorem C7_Shuffle_permutes_real_columns:
  assumes "Shuffle E s = Some s'" and "1 \<le> numFunctions s"
    and "mset (fst (arma_shuffle E (world s) (linspace (numFunctions s))))
           = mset (linspace (numFunctions s))"
  shows "mset (take (numFunctions s) (predictors s')) = mset (take (numFunctions s) (predictors s))
         \<and> drop (numFunctions s) (predictors s') = drop (numFunctions s) (predictors s)
         \<and> numFunctions s' = numFunctions s \<and> batchSize s' = batchSize s"
proof -
  obtain xs w where sh: "arma_shuffle E (world s) (linspace (numFunctions s)) = (xs, w)"
    by (cases "arma_shuffle E (world s) (linspace (numFunctions s))")
  from assms(1) sh obtain p where
    p: "cols_assign 0 (size_t_pred (0 + numFunctions s)) (predictors s)
          (map (\<lambda>j. predictors s ! j) xs) = Some p" and
    s': "s' = s\<lparr>predictors := p, world := w\<rparr>"
    by (auto simp: Shuffle_def cols_pick_def Let_def bind_eq_Some_conv split: if_splits)
  from cols_assign_range [OF p] assms(2)
  have r: "numFunctions s \<le> length (predictors s)" "length xs = numFunctions s"
    "p = map (\<lambda>j. predictors s ! j) xs @ drop (numFunctions s) (predictors s)"
    by simp_all
  have "mset xs = mset [0..<numFunctions s]"
    using assms(3) sh linspace_upt [OF assms(2)] by simp
  from picked_mset [OF this r(1)] r(2) show ?thesis by (simp add: s' r(3))
qed

text \<open>The example shuffle reverses the two real columns.\<close>

theorem C7_witness:
  "Shuffle demo_ext demo_ready = Some (demo_ready\<lparr>predictors := [[7], [5], [0]], world := 4\<rparr>)
   \<and> 1 \<le> numFunctions demo_ready
   \<and> mset (fst (arma_shuffle demo_ext (world demo_ready) (linspace (numFunctions demo_ready))))
       = mset (linspace (numFunctions demo_ready))
   \<and> mset (take (numFunctions demo_ready) [[7], [5], [0]])
       = mset (take (numFunctions demo_ready) (predictors demo_ready))
   \<and> drop (numFunctions demo_ready) [[7], [5], [0]]
       = drop (numFunctions demo_ready) (predictors demo_ready)"
proof -
  have n: "1 \<le> numFunctions demo_ready" by (simp add: demo_ready_def)
  have m: "mset (fst (arma_shuffle demo_ext (world demo_ready) (linspace (numFunctions demo_ready))))
       = mset (linspace (numFunctions demo_ready))"
    by (simp add: demo_ext_def)
  from C7_Shuffle_permutes_real_columns [OF demo_Shuffle n m]
  have "mset (take (numFunctions demo_ready) [[7], [5], [0]])
       = mset (take (numFunctions demo_ready) (predictors demo_ready))
   \<and> drop (numFunctions demo_ready) [[7], [5], [0]]
       = drop (numFunctions demo_ready) (predictors demo_ready)"
    by simp
  with demo_Shuffle n m show ?thesis by blast
qed

lemma relabel_batch:
  assumes "relabel v s = Some s'"
  shows "0 < batchSize s"
proof -
  from assms obtain r where
    r: "cols_assign (numFunctions s) (size_t_pred (numFunctions s + batchSize s))
          (responses s) (mat_fill 1 (batchSize s) v) = Some r"
    by (auto simp: relabel_def Let_def bind_eq_Some_conv)
  have "length (mat_fill 1 (batchSize s) v) = batchSize s" by (simp add: mat_fill_def)
  with cols_assign_range [OF r] show ?thesis by simp
qed

lemma Evaluate_unfold:
  assumes "GAN_Evaluate E i s = Some (res, s')"
  shows "\<exists>s3 dl s5 dl2.
     same_settings s s3 \<and> noise s3 = noise s
     \<and> world s3 = world (if parameter s = [] then Reset E s else s)
     \<and> sample_and_generate E (s3\<lparr>discriminator := (discriminator s3)\<lparr>layers := dl\<rparr>\<rparr>) = Some s5
     \<and> relabel (fakeLabel s5) (s5\<lparr>discriminator := (discriminator s5)\<lparr>layers := dl2\<rparr>\<rparr>) = Some s'"
proof -
  define s1 where "s1 = (if parameter s = [] then Reset E s else s)"
  define s2 where
    "s2 = (if \<not> deterministic s1 then ResetDeterministic E (s1\<lparr>deterministic := True\<rparr>) else s1)"
  define s3 where
    "s3 = (if \<not> deterministic s2 then ResetDeterministic E (s2\<lparr>deterministic := True\<rparr>) else s2)"
  have a: "same_settings s s3" "noise s3 = noise s" "world s3 = world s1"
    by (simp_all add: same_settings_def s1_def s2_def s3_def)
  from assms obtain dl s5 dl2 where
    "sample_and_generate E (s3\<lparr>discriminator := (discriminator s3)\<lparr>layers := dl\<rparr>\<rparr>) = Some s5"
    "relabel (fakeLabel s5) (s5\<lparr>discriminator := (discriminator s5)\<lparr>layers := dl2\<rparr>\<rparr>) = Some s'"
    unfolding GAN_Evaluate_def Let_def s1_def [symmetric] s2_def [symmetric] s3_def [symmetric]
    by (auto simp: bind_eq_Some_conv)
  with a show ?thesis unfolding s1_def by blast
qed

lemma sample_and_generate_forward:
  assumes "sample_and_generate E s = Some s'"
  shows "Option.bind (Parameters_of s (generator s))
           (\<lambda>gparams. ffn_Forward E (generator s) gparams (noise s'))
         = Some (layers (generator s'))"
  using assms
  by (auto simp: sample_and_generate_def Parameters_of_def Let_def bind_eq_Some_conv
      split: prod.splits)

lemma Evaluate_stages:
  assumes "GAN_Evaluate E i s = Some (res, s')"
  shows "\<exists>dl s5 dl2.
     sample_and_generate E
       ((entered_inference E s)\<lparr>discriminator :=
          (discriminator (entered_inference E s))\<lparr>layers := dl\<rparr>\<rparr>) = Some s5
     \<and> relabel (fakeLabel s5) (s5\<lparr>discriminator := (discriminator s5)\<lparr>layers := dl2\<rparr>\<rparr>) = Some s'"
proof -
  define s1 where "s1 = (if parameter s = [] then Reset E s else s)"
  define s2 where
    "s2 = (if \<not> deterministic s1 then ResetDeterministic E (s1\<lparr>deterministic := True\<rparr>) else s1)"
  define s3 where
    "s3 = (if \<not> deterministic s2 then ResetDeterministic E (s2\<lparr>deterministic := True\<rparr>) else s2)"
  have d2: "deterministic s2" by (simp add: s2_def)
  then have e3: "s3 = s2" by (simp add: s3_def)
  have e2: "s2 = entered_inference E s"
    by (simp add: entered_inference_def Let_def s2_def s1_def)
  from assms obtain dl s5 dl2 where
    "sample_and_generate E (s3\<lparr>discriminator := (discriminator s3)\<lparr>layers := dl\<rparr>\<rparr>) = Some s5"
    "relabel (fakeLabel s5) (s5\<lparr>discriminator := (discriminator s5)\<lparr>layers := dl2\<rparr>\<rparr>) = Some s'"
    unfolding GAN_Evaluate_def Let_def s1_def [symmetric] s2_def [symmetric] s3_def [symmetric]
    by (auto simp: bind_eq_Some_conv)
  then show ?thesis unfolding e3 e2 by blast
qed

lemma Evaluate_forward:
  assumes "GAN_Evaluate E i s = Some (res, s')"
  shows "Option.bind (Parameters_of (entered_inference E s) (generator (entered_inference E s)))
           (\<lambda>gparams. ffn_Forward E (generator (entered_inference E s)) gparams (noise s'))
         = Some (layers (generator s'))"
proof -
  define t where "t = entered_inference E s"
  from Evaluate_stages [OF assms] obtain dl s5 dl2 where
    sg: "sample_and_generate E (t\<lparr>discriminator := (discriminator t)\<lparr>layers := dl\<rparr>\<rparr>) = Some s5" and
    rl: "relabel (fakeLabel s5) (s5\<lparr>discriminator := (discriminator s5)\<lparr>layers := dl2\<rparr>\<rparr>) = Some s'"
    unfolding t_def by blast
  from relabel_frame [OF rl] obtain r where
    r: "s' = s5\<lparr>discriminator := (discriminator s5)\<lparr>layers := dl2\<rparr>, responses := r\<rparr>"
    by auto
  from sample_and_generate_forward [OF sg]
  have "Option.bind (Parameters_of t (generator t))
           (\<lambda>gparams. ffn_Forward E (generator t) gparams (noise s5))
         = Some (layers (generator s5))"
    by (simp add: Parameters_of_def)
  then show ?thesis by (simp add: r t_def)
qed

text \<open>
  C10. Every call of \<open>Evaluate\<close> that returns has changed the shared state: the noise
  matrix holds fresh draws, the layers of the generator are those of its forward pass on
  that noise, the generator's columns of the predictors hold the output of those layers, and
  the responses of those columns are \<open>fakeLabel\<close>, whatever they were before the call.
\<close>

theorem C10_Evaluate_rewrites_generated_slice:
  assumes "GAN_Evaluate E i s = Some (res, s')"
  shows "numFunctions s' = numFunctions s \<and> batchSize s' = batchSize s
         \<and> take (batchSize s) (drop (numFunctions s) (responses s'))
               = replicate (batchSize s) [fakeLabel s]
         \<and> take (batchSize s) (drop (numFunctions s) (predictors s'))
               = outputParameter E (layers (generator s'))
         \<and> noise s' = fst (imbue (noiseFunction E) (noise s)
                             (world (if parameter s = [] then Reset E s else s)))
         \<and> Option.bind
               (Parameters_of (entered_inference E s) (generator (entered_inference E s)))
               (\<lambda>gparams. ffn_Forward E (generator (entered_inference E s)) gparams (noise s'))
             = Some (layers (generator s'))"
proof -
  from Evaluate_unfold [OF assms] obtain s3 dl s5 dl2 where
    a: "same_settings s s3" "noise s3 = noise s"
       "world s3 = world (if parameter s = [] then Reset E s else s)" and
    sg: "sample_and_generate E (s3\<lparr>discriminator := (discriminator s3)\<lparr>layers := dl\<rparr>\<rparr>) = Some s5" and
    rl: "relabel (fakeLabel s5) (s5\<lparr>discriminator := (discriminator s5)\<lparr>layers := dl2\<rparr>\<rparr>) = Some s'"
    by blast
  define s4 where "s4 = s3\<lparr>discriminator := (discriminator s3)\<lparr>layers := dl\<rparr>\<rparr>"
  define s6 where "s6 = s5\<lparr>discriminator := (discriminator s5)\<lparr>layers := dl2\<rparr>\<rparr>"
  have b: "same_settings s4 s5" "noise s5 = fst (imbue (noiseFunction E) (noise s4) (world s4))"
    using sample_and_generate_frame [of E s4 s5] sg by (simp_all add: s4_def)
  have st: "same_settings s s5"
    using a(1) b(1) by (simp add: same_settings_def s4_def)
  from relabel_frame [of "fakeLabel s5" s6 s'] rl obtain r where
    r: "s' = s6\<lparr>responses := r\<rparr>"
       "take (batchSize s6) (drop (numFunctions s6) r) = replicate (batchSize s6) [fakeLabel s5]"
    by (auto simp: s6_def)
  have "0 < batchSize s6" using relabel_batch [of "fakeLabel s5" s6 s'] rl by (simp add: s6_def)
  then have pos: "0 < batchSize s4" using b(1) by (simp add: s6_def same_settings_def)
  have cols: "take (batchSize s4) (drop (numFunctions s4) (predictors s5))
                = outputParameter E (layers (generator s5))"
    using sample_and_generate_columns [of E s4 s5] sg pos by (simp add: s4_def)
  have eq4: "batchSize s4 = batchSize s" "numFunctions s4 = numFunctions s"
    using a(1) by (simp_all add: s4_def same_settings_def)
  have "numFunctions s' = numFunctions s \<and> batchSize s' = batchSize s
         \<and> take (batchSize s) (drop (numFunctions s) (responses s'))
               = replicate (batchSize s) [fakeLabel s]
         \<and> take (batchSize s) (drop (numFunctions s) (predictors s'))
               = outputParameter E (layers (generator s'))
         \<and> noise s' = fst (imbue (noiseFunction E) (noise s)
                             (world (if parameter s = [] then Reset E s else s)))"
    using st r(2) cols b(2) a(2) a(3) eq4
    by (simp add: r(1) s6_def s4_def same_settings_def)
  with Evaluate_forward [OF assms] show ?thesis by blast
qed

text \<open>\<open>Evaluate\<close> on the engine that the gate left with a real-labelled generated column.\<close>

theorem C10_witness:
  "GAN_EvaluateWithGradient demo_ext 0 [] demo_open = Some (2, [6, 2], demo_updated)
   \<and> take (batchSize demo_updated) (drop (numFunctions demo_updated) (responses demo_updated))
       = [[realLabel demo_updated]]
   \<and> GAN_Evaluate demo_ext 0 demo_updated \<noteq> None
   \<and> map_option (\<lambda>(res, s). take (batchSize demo_updated)
                                (drop (numFunctions demo_updated) (responses s)))
        (GAN_Evaluate demo_ext 0 demo_updated)
       = Some (replicate (batchSize demo_updated) [fakeLabel demo_updated])
   \<and> map_option (\<lambda>(res, s). (noise s, take (batchSize demo_updated)
                                          (drop (numFunctions demo_updated) (predictors s))))
        (GAN_Evaluate demo_ext 0 demo_updated)
       = Some ([[4]], [[4]])"
proof -
  have fresh: "map_option (\<lambda>(res, s). (noise s, take (batchSize demo_updated)
                                          (drop (numFunctions demo_updated) (predictors s))))
        (GAN_Evaluate demo_ext 0 demo_updated)
       = Some ([[4]], [[4]])"
    by (simp add: demo_eval)
  have before: "take (batchSize demo_updated) (drop (numFunctions demo_updated) (responses demo_updated))
       = [[realLabel demo_updated]]"
    by (simp add: demo_updated_def demo_open_def demo_ready_def)
  from demo_Evaluate obtain res s' where
    r: "GAN_Evaluate demo_ext 0 demo_updated = Some (res, s')"
    by auto
  from C10_Evaluate_rewrites_generated_slice [OF r]
  have "take (batchSize demo_updated) (drop (numFunctions demo_updated) (responses s'))
               = replicate (batchSize demo_updated) [fakeLabel demo_updated]"
    by blast
  then have "map_option (\<lambda>(res, s). take (batchSize demo_updated)
                                (drop (numFunctions demo_updated) (responses s)))
        (GAN_Evaluate demo_ext 0 demo_updated)
       = Some (replicate (batchSize demo_updated) [fakeLabel demo_updated])"
    by (simp only: r option.map prod.case)
  with before demo_open_call demo_Evaluate fresh show ?thesis by blast
qed

end
